theory Spec2Isabelle
  imports Main "HOL-Library.Sublist"
begin

section \<open>Strings\<close>

text \<open>
  A Python \<open>str\<close> is modelled as a \<open>string\<close> whose characters are the code points
  below 256. \<open>py_strip\<close> and \<open>py_lower\<close> are \<open>str.strip()\<close> and \<open>str.lower()\<close> on
  that range.
\<close>

definition nl :: string where
  "nl = [CHR 0x0A]"

text \<open>\<open>sep.join(parts)\<close>\<close>

fun join :: "string \<Rightarrow> string list \<Rightarrow> string" where
  "join sep [] = []"
| "join sep [x] = x"
| "join sep (x # y # ys) = x @ sep @ join sep (y # ys)"

text \<open>The decimal text of a number, as an f-string prints the counter of \<open>enumerate\<close>.\<close>

definition digit_char :: "nat \<Rightarrow> char" where
  "digit_char d = char_of (48 + d)"

function str_nat :: "nat \<Rightarrow> string" where
  "str_nat n = (if n < 10 then [digit_char n] else str_nat (n div 10) @ [digit_char (n mod 10)])"
  by pat_completeness auto
termination
  by (relation "measure id") auto

declare str_nat.simps [simp del]

text \<open>\<open>str.isspace()\<close> on one character: tab to carriage return, the four separators
  0x1C..0x1F, space, NEL (0x85) and the no-break space (0xA0).\<close>

definition py_isspace :: "char \<Rightarrow> bool" where
  "py_isspace c =
     (let n = (of_char c :: nat)
      in (9 \<le> n \<and> n \<le> 13) \<or> (28 \<le> n \<and> n \<le> 32) \<or> n = 133 \<or> n = 160)"

definition py_strip :: "string \<Rightarrow> string" where
  "py_strip s = rev (dropWhile py_isspace (rev (dropWhile py_isspace s)))"

text \<open>\<open>str.lower()\<close> on one character: A..Z and the capital letters 0xC0..0xDE
  (the multiplication sign 0xD7 is not a letter) move up by 32.\<close>

definition py_lower_char :: "char \<Rightarrow> char" where
  "py_lower_char c =
     (let n = (of_char c :: nat)
      in if (65 \<le> n \<and> n \<le> 90) \<or> (192 \<le> n \<and> n \<le> 222 \<and> n \<noteq> 215)
         then char_of (n + 32) else c)"

definition py_lower :: "string \<Rightarrow> string" where
  "py_lower s = map py_lower_char s"

section \<open>Errors, prompts, events\<close>

text \<open>
  The exceptions the code raises or lets through. \<open>str(e)\<close> is the message.
  \<open>RequestException\<close> is \<open>requests.exceptions.RequestException\<close>; every constructor
  is a subclass of Python's \<open>Exception\<close>, so \<open>except Exception\<close> catches all of them.
\<close>

datatype error = ValueError string | RequestException string | Exception string

fun str_of_error :: "error \<Rightarrow> string" where
  "str_of_error (ValueError m) = m"
| "str_of_error (RequestException m) = m"
| "str_of_error (Exception m) = m"

text \<open>
  A prompt is a template with the variables \<open>chain.invoke\<close> fills in:
  \<open>QUERY_ROUTER_PROMPT\<close> (question, has_documents, document_sources),
  \<open>RAG_PROMPT_TEMPLATE\<close> (context, question),
  \<open>WEB_SEARCH_PROMPT_TEMPLATE\<close> (search_results, question),
  \<open>HYBRID_PROMPT_TEMPLATE\<close> (rag_context, web_context, question).
\<close>

datatype prompt =
    QUERY_ROUTER_PROMPT string string string
  | RAG_PROMPT_TEMPLATE string string
  | WEB_SEARCH_PROMPT_TEMPLATE string string
  | HYBRID_PROMPT_TEMPLATE string string string

text \<open>
  The calls to the outside world, in the order they happen: constructing the generator
  (\<open>get_llm()\<close>), one generation call (\<open>chain.invoke\<close>), a similarity search on the
  vector store, a request to the search API.
\<close>

datatype event =
    GetLLM
  | LLMInvoke prompt
  | SimilaritySearch string int
  | SerperRequest string int

text \<open>A call returns a value or raises, and leaves the events it caused.\<close>

type_synonym 'a io = "(error + 'a) \<times> event list"

definition return_io :: "'a \<Rightarrow> 'a io" where
  "return_io x = (Inr x, [])"

definition bind_io :: "'a io \<Rightarrow> ('a \<Rightarrow> 'b io) \<Rightarrow> 'b io" where
  "bind_io m f =
     (case m of
        (Inl e, t) \<Rightarrow> (Inl e, t)
      | (Inr x, t) \<Rightarrow> (case f x of (r, t') \<Rightarrow> (r, t @ t')))"

section \<open>Data\<close>

text \<open>A langchain \<open>Document\<close>: the text and \<open>metadata.get("source")\<close>.\<close>

record document =
  page_content :: string
  metadata_source :: "string option"

text \<open>
  The JSON of the search API. A key that is absent is \<open>None\<close>; \<open>organic\<close> absent is the
  empty list, as \<open>results.get("organic", [])\<close> reads it. \<open>ab_other_keys\<close> and
  \<open>kg_other_keys\<close> say whether the block has keys other than the ones the code reads,
  which decides the truth value of the dictionary.
\<close>

record organic_result =
  title :: "string option"
  snippet :: "string option"
  link :: "string option"

record answer_box =
  ab_answer :: "string option"
  ab_snippet :: "string option"
  ab_other_keys :: bool

record knowledge_graph =
  kg_title :: "string option"
  kg_description :: "string option"
  kg_other_keys :: bool

record search_results =
  organic :: "organic_result list"
  answerBox :: "answer_box option"
  knowledgeGraph :: "knowledge_graph option"

text \<open>The empty dictionary \<open>{}\<close> as a search response.\<close>

definition empty_results :: search_results where
  "empty_results = \<lparr>organic = [], answerBox = None, knowledgeGraph = None\<rparr>"

text \<open>\<open>d.get(key, default)\<close> on a key that may be absent.\<close>

definition dict_get :: "'a option \<Rightarrow> 'a \<Rightarrow> 'a" where
  "dict_get v d = (case v of None \<Rightarrow> d | Some x \<Rightarrow> x)"

text \<open>One entry of \<open>extract_sources\<close>: \<open>{"title": ..., "url": ...}\<close>.\<close>

record web_source =
  ws_title :: string
  ws_url :: string

text \<open>
  The dictionaries the agents return. \<open>query_rag\<close> and \<open>search_web\<close> return no
  \<open>"mode"\<close> key; \<open>query_hybrid\<close> adds it to a result it delegates.
\<close>

record rag_result =
  rag_answer :: string
  rag_sources :: "string list"
  rag_context :: string
  rag_mode :: "string option"

record web_result =
  web_answer :: string
  web_sources :: "web_source list"
  raw_results :: search_results
  web_mode :: "string option"

text \<open>An entry of the merged list: \<open>{"type": "document", "name"}\<close> or
  \<open>{"type": "web", "title", "url"}\<close>.\<close>

datatype provenance = DocumentEntry string | WebEntry string string

record hybrid_result =
  hyb_answer :: string
  hyb_sources :: "provenance list"
  hyb_mode :: string
  hyb_rag_context :: string
  hyb_web_results :: search_results

text \<open>What \<open>query_hybrid\<close> returns: a delegated document result, a delegated web
  result, or the fused one.\<close>

datatype query_result =
    Documents rag_result
  | Web web_result
  | Hybrid hybrid_result

section \<open>The collaborators\<close>

text \<open>
  Everything outside the repository: the two credentials of \<open>config.py\<close>, the Chroma
  collection (its count, the \<open>source\<close> of each stored metadata, its similarity search),
  the HTTP request to the search API, the language model, and the order in which
  Python lists a set of strings (\<open>list(set(...))\<close>). One query does not change the
  collection, so every call of \<open>get_document_count\<close> within it reads the same count.
\<close>

record env =
  OPENAI_API_KEY :: string
  SERPER_API_KEY :: string
  collection_count :: "error + int"
  collection_metadatas :: "error + string option list"
  vector_similarity_search :: "string \<Rightarrow> int \<Rightarrow> error + document list"
  requests_post :: "string \<Rightarrow> int \<Rightarrow> error + search_results"
  chain_invoke :: "prompt \<Rightarrow> error + string"
  list_of_set :: "string list \<Rightarrow> string list"

text \<open>\<open>list(set(xs))\<close> lists each element of \<open>xs\<close> once, in an order the code does not
  choose.\<close>

definition set_listing_ok :: "env \<Rightarrow> bool" where
  "set_listing_ok env =
     (\<forall>xs. distinct (list_of_set env xs) \<and> set (list_of_set env xs) = set xs)"

definition TOP_K_RESULTS :: int where
  "TOP_K_RESULTS = 4"

definition MAX_SEARCH_RESULTS :: int where
  "MAX_SEARCH_RESULTS = 5"

section \<open>utils/vector_store.py\<close>

text \<open>\<open>get_document_count\<close>: any exception gives 0.\<close>

definition get_document_count :: "env \<Rightarrow> int" where
  "get_document_count env =
     (case collection_count env of Inl e \<Rightarrow> 0 | Inr n \<Rightarrow> n)"

text \<open>\<open>get_all_sources\<close>: the set of the \<open>source\<close> values present, as a list; any
  exception gives the empty list.\<close>

definition get_all_sources :: "env \<Rightarrow> string list" where
  "get_all_sources env =
     (case collection_metadatas env of
        Inl e \<Rightarrow> []
      | Inr metadatas \<Rightarrow> list_of_set env (List.map_filter id metadatas))"

definition similarity_search :: "env \<Rightarrow> string \<Rightarrow> int \<Rightarrow> document list io" where
  "similarity_search env query k =
     (vector_similarity_search env query k, [SimilaritySearch query k])"

section \<open>The generator\<close>

text \<open>\<open>get_llm\<close>, the same in the three agents: without a credential it raises.\<close>

definition get_llm :: "env \<Rightarrow> unit io" where
  "get_llm env =
     (if OPENAI_API_KEY env = []
      then (Inl (ValueError ''OPENAI_API_KEY is not set. Please set it in your .env file.''), [GetLLM])
      else (Inr (), [GetLLM]))"

text \<open>\<open>llm = get_llm(); chain = prompt | llm; chain.invoke(variables)\<close>\<close>

definition generate :: "env \<Rightarrow> prompt \<Rightarrow> string io" where
  "generate env p =
     bind_io (get_llm env) (\<lambda>_. (chain_invoke env p, [LLMInvoke p]))"

section \<open>agents/hybrid_agent.py: route_query\<close>

definition route_query :: "env \<Rightarrow> string \<Rightarrow> string io" where
  "route_query env question =
     (let doc_count = get_document_count env;
          has_documents = (doc_count > 0);
          sources = (if has_documents then get_all_sources env else [])
      in if \<not> has_documents then return_io ''web''
         else bind_io
           (generate env
              (QUERY_ROUTER_PROMPT question
                 (if has_documents then ''Yes'' else ''No'')
                 (if sources \<noteq> [] then join '', '' sources else ''None'')))
           (\<lambda>content.
              let route = py_lower (py_strip content)
              in if route \<in> set [''documents'', ''web'', ''hybrid'']
                 then return_io route
                 else return_io ''hybrid''))"

section \<open>agents/rag_agent.py\<close>

text \<open>\<open>doc.metadata.get("source", "Unknown")\<close>\<close>

definition doc_source :: "document \<Rightarrow> string" where
  "doc_source doc = dict_get (metadata_source doc) ''Unknown''"

text \<open>One part of \<open>format_context\<close>: the header with the counter and the source, the
  text, each followed by a newline.\<close>

definition context_part :: "nat \<times> document \<Rightarrow> string" where
  "context_part p =
     (case p of (i, doc) \<Rightarrow>
        ''[Document '' @ str_nat i @ '' - Source: '' @ doc_source doc @ '']'' @ nl
          @ page_content doc @ nl)"

definition format_context :: "document list \<Rightarrow> string" where
  "format_context documents = join nl (map context_part (List.enumerate 1 documents))"

definition no_documents_answer :: string where
  "no_documents_answer =
     ''No documents have been uploaded yet. Please upload some documents first to use RAG mode.''"

definition no_relevant_answer :: string where
  "no_relevant_answer =
     ''I couldn't find any relevant information in the uploaded documents to answer your question.''"

definition query_rag :: "env \<Rightarrow> string \<Rightarrow> int \<Rightarrow> rag_result io" where
  "query_rag env question k =
     (let doc_count = get_document_count env
      in if doc_count = 0
         then return_io \<lparr>rag_answer = no_documents_answer, rag_sources = [],
                          rag_context = [], rag_mode = None\<rparr>
         else bind_io (similarity_search env question k) (\<lambda>retrieved_docs.
           if retrieved_docs = []
           then return_io \<lparr>rag_answer = no_relevant_answer, rag_sources = [],
                            rag_context = [], rag_mode = None\<rparr>
           else
             let context = format_context retrieved_docs
             in bind_io (generate env (RAG_PROMPT_TEMPLATE context question)) (\<lambda>content.
                  let sources = list_of_set env (map doc_source retrieved_docs)
                  in return_io \<lparr>rag_answer = content, rag_sources = sources,
                                  rag_context = context, rag_mode = None\<rparr>)))"

section \<open>agents/web_search_agent.py\<close>

text \<open>\<open>search_serper\<close>: without a credential it raises before any request; a
  \<open>RequestException\<close> of the request is raised again as a plain \<open>Exception\<close>, any
  other exception passes through.\<close>

definition search_serper :: "env \<Rightarrow> string \<Rightarrow> int \<Rightarrow> search_results io" where
  "search_serper env query num_results =
     (if SERPER_API_KEY env = []
      then (Inl (ValueError ''SERPER_API_KEY is not set. Please set it in your .env file.''), [])
      else
        ((case requests_post env query num_results of
            Inr response \<Rightarrow> Inr response
          | Inl (RequestException m) \<Rightarrow> Inl (Exception (''Serper API request failed: '' @ m))
          | Inl e \<Rightarrow> Inl e),
         [SerperRequest query num_results]))"

definition result_part :: "nat \<times> organic_result \<Rightarrow> string" where
  "result_part p =
     (case p of (i, result) \<Rightarrow>
        ''[Result '' @ str_nat i @ '']'' @ nl
          @ ''Title: '' @ dict_get (title result) ''No title'' @ nl
          @ ''Snippet: '' @ dict_get (snippet result) ''No description'' @ nl
          @ ''URL: '' @ dict_get (link result) [] @ nl)"

text \<open>\<open>answer_box.get("answer") or answer_box.get("snippet", "")\<close>: the answer when
  it is there and not empty, the snippet otherwise.\<close>

definition featured_answer :: "answer_box \<Rightarrow> string" where
  "featured_answer ab =
     (case ab_answer ab of
        Some a \<Rightarrow> if a \<noteq> [] then a else dict_get (ab_snippet ab) []
      | None \<Rightarrow> dict_get (ab_snippet ab) [])"

text \<open>The truth value of the two optional blocks: a dictionary is true when it has a
  key.\<close>

definition answer_box_truthy :: "answer_box \<Rightarrow> bool" where
  "answer_box_truthy ab = (ab_answer ab \<noteq> None \<or> ab_snippet ab \<noteq> None \<or> ab_other_keys ab)"

definition knowledge_graph_truthy :: "knowledge_graph \<Rightarrow> bool" where
  "knowledge_graph_truthy kg =
     (kg_title kg \<noteq> None \<or> kg_description kg \<noteq> None \<or> kg_other_keys kg)"

definition no_results_sentinel :: string where
  "no_results_sentinel = ''No search results found.''"

text \<open>\<open>format_search_results\<close>: the organic results are appended in order, then the
  featured answer is inserted at index 0, then the knowledge graph is inserted at
  index 0.\<close>

definition format_search_results :: "search_results \<Rightarrow> string" where
  "format_search_results results =
     (let formatted_parts = map result_part (List.enumerate 1 (organic results));
          formatted_parts =
            (case answerBox results of
               None \<Rightarrow> formatted_parts
             | Some answer_box \<Rightarrow>
                 if answer_box_truthy answer_box
                 then (let answer = featured_answer answer_box
                       in if answer \<noteq> []
                          then (''[Featured Answer]'' @ nl @ answer @ nl) # formatted_parts
                          else formatted_parts)
                 else formatted_parts);
          formatted_parts =
            (case knowledgeGraph results of
               None \<Rightarrow> formatted_parts
             | Some knowledge_graph \<Rightarrow>
                 if knowledge_graph_truthy knowledge_graph
                 then (let t = dict_get (kg_title knowledge_graph) [];
                           description = dict_get (kg_description knowledge_graph) []
                       in if t \<noteq> [] \<or> description \<noteq> []
                          then (''[Knowledge Graph]'' @ nl @ ''Title: '' @ t @ nl
                                  @ ''Description: '' @ description @ nl) # formatted_parts
                          else formatted_parts)
                 else formatted_parts)
      in if formatted_parts \<noteq> [] then join nl formatted_parts else no_results_sentinel)"

definition extract_sources :: "search_results \<Rightarrow> web_source list" where
  "extract_sources results =
     map (\<lambda>result. \<lparr>ws_title = dict_get (title result) ''Unknown'',
                      ws_url = dict_get (link result) []\<rparr>)
         (organic results)"

definition no_web_results_answer :: string where
  "no_web_results_answer = ''I couldn't find any relevant web search results for your query.''"

definition search_web :: "env \<Rightarrow> string \<Rightarrow> web_result io" where
  "search_web env question =
     bind_io (search_serper env question MAX_SEARCH_RESULTS) (\<lambda>search_results.
       let formatted_results = format_search_results search_results
       in if formatted_results = ''No search results found.''
          then return_io \<lparr>web_answer = no_web_results_answer, web_sources = [],
                           raw_results = search_results, web_mode = None\<rparr>
          else bind_io (generate env (WEB_SEARCH_PROMPT_TEMPLATE formatted_results question))
                 (\<lambda>content.
                    let sources = extract_sources search_results
                    in return_io \<lparr>web_answer = content, web_sources = sources,
                                    raw_results = search_results, web_mode = None\<rparr>))"

section \<open>agents/hybrid_agent.py: query_hybrid\<close>

text \<open>
  The part of \<open>query_hybrid\<close> after the routing block. \<open>rag_result\<close> and \<open>web_result\<close>
  start as the two default dictionaries; a sub-query that returns replaces its
  dictionary, one that raises leaves it and stores the message. Both dictionaries
  always hold the keys \<open>"context"\<close>, \<open>"answer"\<close>, \<open>"sources"\<close> and \<open>"raw_results"\<close>, so every
  \<open>.get\<close> finds its key.
\<close>

definition rag_result_default :: rag_result where
  "rag_result_default =
     \<lparr>rag_answer = [], rag_sources = [], rag_context = [], rag_mode = None\<rparr>"

definition web_result_default :: web_result where
  "web_result_default =
     \<lparr>web_answer = [], web_sources = [], raw_results = empty_results, web_mode = None\<rparr>"

text \<open>The block \<open># Get RAG results if documents available\<close>: the dictionary it leaves
  in \<open>rag_result\<close> and the events of the call.\<close>

definition get_rag_results :: "env \<Rightarrow> string \<Rightarrow> int \<Rightarrow> rag_result \<times> event list" where
  "get_rag_results env question doc_count =
     (if doc_count > 0
      then (case query_rag env question TOP_K_RESULTS of
              (Inr r, t) \<Rightarrow> (r, t)
            | (Inl e, t) \<Rightarrow>
                (rag_result_default\<lparr>rag_context :=
                   ''Error retrieving from documents: '' @ str_of_error e\<rparr>, t))
      else (rag_result_default, []))"

text \<open>The block \<open># Get web search results\<close>.\<close>

definition get_web_results :: "env \<Rightarrow> string \<Rightarrow> web_result \<times> event list" where
  "get_web_results env question =
     (case search_web env question of
        (Inr r, t) \<Rightarrow> (r, t)
      | (Inl e, t) \<Rightarrow>
          (web_result_default\<lparr>web_answer := ''Error searching web: '' @ str_of_error e\<rparr>, t))"

text \<open>The typed entry of one web source.\<close>

definition web_entry :: "web_source \<Rightarrow> provenance" where
  "web_entry source = WebEntry (ws_title source) (ws_url source)"

definition hybrid_fusion :: "env \<Rightarrow> string \<Rightarrow> int \<Rightarrow> query_result io" where
  "hybrid_fusion env question doc_count =
     (case get_rag_results env question doc_count of (rag_result, t1) \<Rightarrow>
      case get_web_results env question of (web_result, t2) \<Rightarrow>
        let rag_context =
              dict_get (Some (rag_context rag_result)) ''No document context available.'';
            web_context =
              dict_get (Some (web_answer web_result)) ''No web search results available.''
        in bind_io ((Inr (), t1 @ t2) :: unit io) (\<lambda>_.
           bind_io (generate env (HYBRID_PROMPT_TEMPLATE rag_context web_context question))
             (\<lambda>content.
                let all_sources =
                      map DocumentEntry (dict_get (Some (rag_sources rag_result)) [])
                      @ map web_entry (dict_get (Some (web_sources web_result)) [])
                in return_io
                     (Hybrid \<lparr>hyb_answer = content, hyb_sources = all_sources,
                              hyb_mode = ''hybrid'', hyb_rag_context = rag_context,
                              hyb_web_results =
                                dict_get (Some (raw_results web_result)) empty_results\<rparr>))))"

definition query_hybrid :: "env \<Rightarrow> string \<Rightarrow> bool \<Rightarrow> query_result io" where
  "query_hybrid env question auto_route =
     (let doc_count = get_document_count env
      in if auto_route
         then bind_io (route_query env question) (\<lambda>route.
                if route = ''documents''
                then bind_io (query_rag env question TOP_K_RESULTS) (\<lambda>result.
                       return_io (Documents (result\<lparr>rag_mode := Some ''documents''\<rparr>)))
                else if route = ''web''
                then bind_io (search_web env question) (\<lambda>result.
                       return_io (Web (result\<lparr>web_mode := Some ''web''\<rparr>)))
                else hybrid_fusion env question doc_count)
         else hybrid_fusion env question doc_count)"

section \<open>The blocks of a formatted search context\<close>

text \<open>
  The words of the specification for \<open>format_search_results\<close>: a featured answer is
  usable when the answer box gives a text that is not empty, a knowledge graph when its
  title or its description is not empty; each usable block contributes one part.
\<close>

definition usable_featured_answer :: "search_results \<Rightarrow> bool" where
  "usable_featured_answer results =
     (case answerBox results of None \<Rightarrow> False | Some ab \<Rightarrow> featured_answer ab \<noteq> [])"

definition usable_knowledge_graph :: "search_results \<Rightarrow> bool" where
  "usable_knowledge_graph results =
     (case knowledgeGraph results of
        None \<Rightarrow> False
      | Some kg \<Rightarrow> dict_get (kg_title kg) [] \<noteq> [] \<or> dict_get (kg_description kg) [] \<noteq> [])"

definition featured_answer_block :: "search_results \<Rightarrow> string list" where
  "featured_answer_block results =
     (case answerBox results of
        None \<Rightarrow> []
      | Some ab \<Rightarrow>
          if usable_featured_answer results
          then [''[Featured Answer]'' @ nl @ featured_answer ab @ nl] else [])"

definition knowledge_graph_block :: "search_results \<Rightarrow> string list" where
  "knowledge_graph_block results =
     (case knowledgeGraph results of
        None \<Rightarrow> []
      | Some kg \<Rightarrow>
          if usable_knowledge_graph results
          then [''[Knowledge Graph]'' @ nl @ ''Title: '' @ dict_get (kg_title kg) [] @ nl
                  @ ''Description: '' @ dict_get (kg_description kg) [] @ nl]
          else [])"

definition organic_blocks :: "search_results \<Rightarrow> string list" where
  "organic_blocks results = map result_part (List.enumerate 1 (organic results))"

section \<open>Example environments\<close>

text \<open>
  Three stored chunks from two files, a search response with three organic results, a
  featured answer and a knowledge graph, and a model that answers every prompt; a set
  of names is listed by \<open>remdups\<close>.
\<close>

definition example_documents :: "document list" where
  "example_documents =
     [\<lparr>page_content = ''Alpha'', metadata_source = Some ''a.pdf''\<rparr>,
      \<lparr>page_content = ''Beta'', metadata_source = Some ''b.txt''\<rparr>,
      \<lparr>page_content = ''Gamma'', metadata_source = Some ''a.pdf''\<rparr>]"

definition example_search :: search_results where
  "example_search =
     \<lparr>organic =
        [\<lparr>title = Some ''One'', snippet = Some ''first'', link = Some ''http://one''\<rparr>,
         \<lparr>title = Some ''Two'', snippet = None, link = Some ''http://two''\<rparr>,
         \<lparr>title = None, snippet = Some ''third'', link = None\<rparr>],
      answerBox = Some \<lparr>ab_answer = None, ab_snippet = Some ''featured'', ab_other_keys = True\<rparr>,
      knowledgeGraph =
        Some \<lparr>kg_title = Some ''Graph'', kg_description = None, kg_other_keys = False\<rparr>\<rparr>"

definition featured_only_search :: search_results where
  "featured_only_search =
     \<lparr>organic = [],
      answerBox = Some \<lparr>ab_answer = Some ''42'', ab_snippet = None, ab_other_keys = False\<rparr>,
      knowledgeGraph = None\<rparr>"

fun example_llm :: "prompt \<Rightarrow> error + string" where
  "example_llm (QUERY_ROUTER_PROMPT q has_docs srcs) = Inr ('' Hybrid '' @ nl)"
| "example_llm (RAG_PROMPT_TEMPLATE ctx q) = Inr ''document answer''"
| "example_llm (WEB_SEARCH_PROMPT_TEMPLATE ctx q) = Inr ''web answer''"
| "example_llm (HYBRID_PROMPT_TEMPLATE rag_ctx web_ctx q) = Inr ''fused answer''"

definition example_env :: env where
  "example_env =
     \<lparr>OPENAI_API_KEY = ''sk-test'', SERPER_API_KEY = ''serper-test'',
      collection_count = Inr 3,
      collection_metadatas = Inr [Some ''a.pdf'', Some ''b.txt'', Some ''a.pdf''],
      vector_similarity_search = (\<lambda>query k. Inr example_documents),
      requests_post = (\<lambda>query num_results. Inr example_search),
      chain_invoke = example_llm,
      list_of_set = remdups\<rparr>"

text \<open>The same with nothing indexed.\<close>

definition empty_index_env :: env where
  "empty_index_env =
     example_env\<lparr>collection_count := Inr 0, collection_metadatas := Inr [],
                  vector_similarity_search := (\<lambda>query k. Inr [])\<rparr>"

text \<open>The same with a similarity search that finds nothing.\<close>

definition no_match_env :: env where
  "no_match_env = example_env\<lparr>vector_similarity_search := (\<lambda>query k. Inr [])\<rparr>"

text \<open>The same with a similarity search that raises.\<close>

definition retrieval_error_env :: env where
  "retrieval_error_env =
     example_env\<lparr>vector_similarity_search := (\<lambda>query k. Inl (Exception ''index unavailable''))\<rparr>"

text \<open>The same with a search response that is the empty dictionary.\<close>

definition no_results_env :: env where
  "no_results_env = example_env\<lparr>requests_post := (\<lambda>query num_results. Inr empty_results)\<rparr>"

text \<open>The same with a search response that has a featured answer and nothing else.\<close>

definition featured_only_env :: env where
  "featured_only_env =
     example_env\<lparr>requests_post := (\<lambda>query num_results. Inr featured_only_search)\<rparr>"

text \<open>What \<open>query_hybrid\<close> returns in the example environment.\<close>

definition example_hybrid_result :: hybrid_result where
  "example_hybrid_result =
     \<lparr>hyb_answer = ''fused answer'',
      hyb_sources =
        [DocumentEntry ''b.txt'', DocumentEntry ''a.pdf'', WebEntry ''One'' ''http://one'',
         WebEntry ''Two'' ''http://two'', WebEntry ''Unknown'' []],
      hyb_mode = ''hybrid'',
      hyb_rag_context = format_context example_documents,
      hyb_web_results = example_search\<rparr>"

text \<open>What it returns when the similarity search raises.\<close>

definition retrieval_error_result :: hybrid_result where
  "retrieval_error_result =
     \<lparr>hyb_answer = ''fused answer'',
      hyb_sources =
        [WebEntry ''One'' ''http://one'', WebEntry ''Two'' ''http://two'', WebEntry ''Unknown'' []],
      hyb_mode = ''hybrid'',
      hyb_rag_context = ''Error retrieving from documents: index unavailable'',
      hyb_web_results = example_search\<rparr>"

section \<open>The calls, unfolded\<close>

lemma generate_eq:
  "generate env p =
     (if OPENAI_API_KEY env = []
      then (Inl (ValueError ''OPENAI_API_KEY is not set. Please set it in your .env file.''), [GetLLM])
      else (chain_invoke env p, [GetLLM, LLMInvoke p]))"
  by (simp add: generate_def get_llm_def bind_io_def split: sum.splits)

lemma join_starts_with:
  assumes "parts \<noteq> []" and "\<forall>p \<in> set parts. p \<noteq> [] \<and> hd p = c"
  shows "join sep parts \<noteq> [] \<and> hd (join sep parts) = c"
  using assms by (induction sep parts rule: join.induct) auto

lemma result_part_starts: "result_part p \<noteq> [] \<and> hd (result_part p) = CHR ''[''"
  by (cases p) (simp add: result_part_def)

lemma organic_blocks_start: "\<forall>p \<in> set (organic_blocks results). p \<noteq> [] \<and> hd p = CHR ''[''"
  by (auto simp: organic_blocks_def result_part_starts)

lemma featured_answer_block_start:
  "\<forall>p \<in> set (featured_answer_block results). p \<noteq> [] \<and> hd p = CHR ''[''"
  by (auto simp: featured_answer_block_def split: option.splits)

lemma knowledge_graph_block_start:
  "\<forall>p \<in> set (knowledge_graph_block results). p \<noteq> [] \<and> hd p = CHR ''[''"
  by (auto simp: knowledge_graph_block_def split: option.splits)

lemma featured_answer_not_truthy: "\<not> answer_box_truthy ab \<Longrightarrow> featured_answer ab = []"
  by (simp add: answer_box_truthy_def featured_answer_def dict_get_def)

lemma format_search_results_blocks:
  "format_search_results results =
     (let parts = knowledge_graph_block results @ featured_answer_block results
                    @ organic_blocks results
      in if parts \<noteq> [] then join nl parts else no_results_sentinel)"
  by (auto simp: format_search_results_def Let_def knowledge_graph_block_def
        featured_answer_block_def organic_blocks_def usable_featured_answer_def
        usable_knowledge_graph_def knowledge_graph_truthy_def dict_get_def
        featured_answer_not_truthy
      split: option.splits)

lemma organic_blocks_Nil: "organic_blocks results = [] \<longleftrightarrow> organic results = []"
proof -
  have "length (organic_blocks results) = length (organic results)"
    by (simp add: organic_blocks_def)
  then show ?thesis by (metis length_0_conv)
qed

lemma blocks_empty_iff:
  "knowledge_graph_block results @ featured_answer_block results @ organic_blocks results = []
     \<longleftrightarrow> organic results = [] \<and> \<not> usable_featured_answer results
          \<and> \<not> usable_knowledge_graph results"
  by (auto simp: knowledge_graph_block_def featured_answer_block_def organic_blocks_Nil
        usable_featured_answer_def usable_knowledge_graph_def
      split: option.splits)

lemma join_blocks_not_sentinel:
  assumes "knowledge_graph_block results @ featured_answer_block results
             @ organic_blocks results \<noteq> []"
  shows "join nl (knowledge_graph_block results @ featured_answer_block results
           @ organic_blocks results) \<noteq> ''No search results found.''"
proof -
  have "\<forall>p \<in> set (knowledge_graph_block results @ featured_answer_block results
                     @ organic_blocks results). p \<noteq> [] \<and> hd p = CHR ''[''"
    using knowledge_graph_block_start[of results] featured_answer_block_start[of results]
      organic_blocks_start[of results]
    by auto
  from join_starts_with[OF assms this]
  have "hd (join nl (knowledge_graph_block results @ featured_answer_block results
           @ organic_blocks results)) = CHR ''[''" by simp
  then show ?thesis by auto
qed

lemma format_sentinel_iff:
  "format_search_results results = ''No search results found.'' \<longleftrightarrow>
     organic results = [] \<and> \<not> usable_featured_answer results
       \<and> \<not> usable_knowledge_graph results"
  using join_blocks_not_sentinel[of results] blocks_empty_iff[of results]
  by (auto simp: format_search_results_blocks Let_def no_results_sentinel_def)

text \<open>
  Claim C9. The formatted context is the knowledge-graph block (when usable), then the
  featured answer (when usable), then one block per organic result, numbered from 1 in
  the order of the response, joined by newlines; it is the sentinel
  \<open>No search results found.\<close> exactly when there is no organic result, no usable featured
  answer and no usable knowledge graph.
\<close>

theorem format_search_results_precedence:
  "format_search_results results =
     (if organic results = [] \<and> \<not> usable_featured_answer results
           \<and> \<not> usable_knowledge_graph results
      then ''No search results found.''
      else join nl (knowledge_graph_block results @ featured_answer_block results
                      @ organic_blocks results))
   \<and> (format_search_results results = ''No search results found.'' \<longleftrightarrow>
        organic results = [] \<and> \<not> usable_featured_answer results
          \<and> \<not> usable_knowledge_graph results)
   \<and> length (organic_blocks results) = length (organic results)
   \<and> (\<forall>i < length (organic results).
         organic_blocks results ! i = result_part (i + 1, organic results ! i))"
proof -
  have a: "format_search_results results =
     (if organic results = [] \<and> \<not> usable_featured_answer results
           \<and> \<not> usable_knowledge_graph results
      then ''No search results found.''
      else join nl (knowledge_graph_block results @ featured_answer_block results
                      @ organic_blocks results))"
    using blocks_empty_iff[of results]
    by (simp add: format_search_results_blocks Let_def no_results_sentinel_def)
  have b: "length (organic_blocks results) = length (organic results)"
    by (simp add: organic_blocks_def)
  have c: "\<forall>i < length (organic results).
         organic_blocks results ! i = result_part (i + 1, organic results ! i)"
    by (simp add: organic_blocks_def nth_enumerate_eq)
  from a b c format_sentinel_iff[of results] show ?thesis by blast
qed


theorem format_search_results_precedence_witness:
  "knowledge_graph_block example_search =
     [''[Knowledge Graph]\<newline>Title: Graph\<newline>Description: \<newline>'']
   \<and> featured_answer_block example_search = [''[Featured Answer]\<newline>featured\<newline>'']
   \<and> organic_blocks example_search =
       [''[Result 1]\<newline>Title: One\<newline>Snippet: first\<newline>URL: http://one\<newline>'',
        ''[Result 2]\<newline>Title: Two\<newline>Snippet: No description\<newline>URL: http://two\<newline>'',
        ''[Result 3]\<newline>Title: No title\<newline>Snippet: third\<newline>URL: \<newline>'']
   \<and> format_search_results example_search =
       ''[Knowledge Graph]\<newline>Title: Graph\<newline>Description: \<newline>\<newline>[Featured Answer]\<newline>featured\<newline>\<newline>[Result 1]\<newline>Title: One\<newline>Snippet: first\<newline>URL: http://one\<newline>\<newline>[Result 2]\<newline>Title: Two\<newline>Snippet: No description\<newline>URL: http://two\<newline>\<newline>[Result 3]\<newline>Title: No title\<newline>Snippet: third\<newline>URL: \<newline>''
   \<and> organic empty_results = [] \<and> \<not> usable_featured_answer empty_results
   \<and> \<not> usable_knowledge_graph empty_results
   \<and> format_search_results empty_results = ''No search results found.''"
proof -
  have k: "knowledge_graph_block example_search =
     [''[Knowledge Graph]\<newline>Title: Graph\<newline>Description: \<newline>'']"
    by code_simp
  have f: "featured_answer_block example_search = [''[Featured Answer]\<newline>featured\<newline>'']"
    by code_simp
  have o: "organic_blocks example_search =
       [''[Result 1]\<newline>Title: One\<newline>Snippet: first\<newline>URL: http://one\<newline>'',
        ''[Result 2]\<newline>Title: Two\<newline>Snippet: No description\<newline>URL: http://two\<newline>'',
        ''[Result 3]\<newline>Title: No title\<newline>Snippet: third\<newline>URL: \<newline>'']"
    by code_simp
  have u: "organic example_search \<noteq> []" by code_simp
  have e: "organic empty_results = [] \<and> \<not> usable_featured_answer empty_results
             \<and> \<not> usable_knowledge_graph empty_results"
    by code_simp
  from format_search_results_precedence[of example_search] u
  have "format_search_results example_search =
          join nl (knowledge_graph_block example_search @ featured_answer_block example_search
                     @ organic_blocks example_search)"
    by simp
  then have 1: "format_search_results example_search =
       ''[Knowledge Graph]\<newline>Title: Graph\<newline>Description: \<newline>\<newline>[Featured Answer]\<newline>featured\<newline>\<newline>[Result 1]\<newline>Title: One\<newline>Snippet: first\<newline>URL: http://one\<newline>\<newline>[Result 2]\<newline>Title: Two\<newline>Snippet: No description\<newline>URL: http://two\<newline>\<newline>[Result 3]\<newline>Title: No title\<newline>Snippet: third\<newline>URL: \<newline>''"
    by (simp add: k f o nl_def)
  from format_search_results_precedence[of empty_results] e
  have 2: "format_search_results empty_results = ''No search results found.''"
    by simp
  from k f o 1 2 e show ?thesis by simp
qed

lemma query_rag_eq:
  "query_rag env q k =
     (if get_document_count env = 0
      then (Inr \<lparr>rag_answer = no_documents_answer, rag_sources = [], rag_context = [],
                 rag_mode = None\<rparr>, [])
      else (case vector_similarity_search env q k of
             Inl e \<Rightarrow> (Inl e, [SimilaritySearch q k])
           | Inr ds \<Rightarrow>
               if ds = []
               then (Inr \<lparr>rag_answer = no_relevant_answer, rag_sources = [], rag_context = [],
                          rag_mode = None\<rparr>, [SimilaritySearch q k])
               else if OPENAI_API_KEY env = []
               then (Inl (ValueError ''OPENAI_API_KEY is not set. Please set it in your .env file.''),
                     [SimilaritySearch q k, GetLLM])
               else (case chain_invoke env (RAG_PROMPT_TEMPLATE (format_context ds) q) of
                      Inl e \<Rightarrow> (Inl e, [SimilaritySearch q k, GetLLM,
                                         LLMInvoke (RAG_PROMPT_TEMPLATE (format_context ds) q)])
                    | Inr a \<Rightarrow>
                        (Inr \<lparr>rag_answer = a,
                              rag_sources = list_of_set env (map doc_source ds),
                              rag_context = format_context ds, rag_mode = None\<rparr>,
                         [SimilaritySearch q k, GetLLM,
                          LLMInvoke (RAG_PROMPT_TEMPLATE (format_context ds) q)]))))"
  by (simp add: query_rag_def similarity_search_def generate_eq bind_io_def return_io_def
      Let_def split: sum.splits)

lemma search_serper_Inr:
  "search_serper env q n = (Inr sr, t) \<longleftrightarrow>
     SERPER_API_KEY env \<noteq> [] \<and> requests_post env q n = Inr sr \<and> t = [SerperRequest q n]"
  by (auto simp: search_serper_def split: sum.splits error.splits)

lemma search_web_eq:
  "search_web env q =
     (case search_serper env q MAX_SEARCH_RESULTS of
        (Inl e, t) \<Rightarrow> (Inl e, t)
      | (Inr sr, t) \<Rightarrow>
          (if format_search_results sr = ''No search results found.''
          then (Inr \<lparr>web_answer = no_web_results_answer, web_sources = [],
                     raw_results = sr, web_mode = None\<rparr>, t)
          else if OPENAI_API_KEY env = []
          then (Inl (ValueError ''OPENAI_API_KEY is not set. Please set it in your .env file.''),
                t @ [GetLLM])
          else (case chain_invoke env (WEB_SEARCH_PROMPT_TEMPLATE (format_search_results sr) q) of
                 Inl e \<Rightarrow> (Inl e, t @ [GetLLM,
                     LLMInvoke (WEB_SEARCH_PROMPT_TEMPLATE (format_search_results sr) q)])
               | Inr a \<Rightarrow>
                   (Inr \<lparr>web_answer = a, web_sources = extract_sources sr,
                         raw_results = sr, web_mode = None\<rparr>,
                    t @ [GetLLM,
                     LLMInvoke (WEB_SEARCH_PROMPT_TEMPLATE (format_search_results sr) q)]))))"
  by (simp add: search_web_def generate_eq bind_io_def return_io_def Let_def
      split: sum.splits prod.splits)

text \<open>
  Claim C1. When the vector store counts zero documents, \<open>route_query\<close> returns the
  label \<open>web\<close> and causes no event at all: the generator is neither constructed
  (\<open>GetLLM\<close>) nor invoked (\<open>LLMInvoke\<close>).
\<close>

theorem route_query_no_documents:
  "get_document_count env = 0 \<Longrightarrow> route_query env question = (Inr ''web'', [])"
  by (simp add: route_query_def return_io_def)

theorem route_query_no_documents_witness:
  "get_document_count empty_index_env = 0
     \<and> route_query empty_index_env ''What is new today?'' = (Inr ''web'', [])"
proof -
  have h: "get_document_count empty_index_env = 0" by code_simp
  from route_query_no_documents[OF h] h show ?thesis by simp
qed



text \<open>
  Claim C7. On an empty index \<open>query_rag\<close> returns the fixed "no documents uploaded"
  answer with no sources and an empty context, and causes no event: no similarity
  search and no generation. When the similarity search returns no chunk, it returns a
  fixed answer too, and the search is the only event.
\<close>

theorem query_rag_empty_fallback:
  "(get_document_count env = 0 \<longrightarrow>
      query_rag env question k =
        (Inr \<lparr>rag_answer = ''No documents have been uploaded yet. Please upload some documents first to use RAG mode.'',
              rag_sources = [], rag_context = [], rag_mode = None\<rparr>, []))
   \<and> (get_document_count env \<noteq> 0 \<and> vector_similarity_search env question k = Inr [] \<longrightarrow>
      query_rag env question k =
        (Inr \<lparr>rag_answer = no_relevant_answer, rag_sources = [], rag_context = [],
              rag_mode = None\<rparr>, [SimilaritySearch question k]))"
  by (simp add: query_rag_eq no_documents_answer_def)

theorem query_rag_empty_fallback_witness:
  "get_document_count empty_index_env = 0
   \<and> query_rag empty_index_env ''What does the report say?'' 4 =
        (Inr \<lparr>rag_answer = ''No documents have been uploaded yet. Please upload some documents first to use RAG mode.'',
              rag_sources = [], rag_context = [], rag_mode = None\<rparr>, [])
   \<and> get_document_count no_match_env \<noteq> 0
   \<and> vector_similarity_search no_match_env ''What does the report say?'' 4 = Inr []
   \<and> query_rag no_match_env ''What does the report say?'' 4 =
        (Inr \<lparr>rag_answer = no_relevant_answer, rag_sources = [], rag_context = [],
              rag_mode = None\<rparr>, [SimilaritySearch ''What does the report say?'' 4])"
proof -
  have h1: "get_document_count empty_index_env = 0" by code_simp
  have h2: "get_document_count no_match_env \<noteq> 0" by code_simp
  have h3: "vector_similarity_search no_match_env ''What does the report say?'' 4 = Inr []"
    by code_simp
  from query_rag_empty_fallback[of empty_index_env "''What does the report say?''" 4]
    query_rag_empty_fallback[of no_match_env "''What does the report say?''" 4]
    h1 h2 h3
  show ?thesis by simp
qed

text \<open>
  Claim C8. When the formatted context of the search response is the sentinel
  \<open>No search results found.\<close>, \<open>search_web\<close> returns the fixed "couldn't find" answer
  with no sources, and the request to the search API is the only event: no generation.
\<close>

theorem search_web_sentinel_fallback:
  assumes "search_serper env question MAX_SEARCH_RESULTS = (Inr results, t)"
    and "format_search_results results = ''No search results found.''"
  shows "search_web env question =
           (Inr \<lparr>web_answer = ''I couldn't find any relevant web search results for your query.'',
                 web_sources = [], raw_results = results, web_mode = None\<rparr>,
            [SerperRequest question MAX_SEARCH_RESULTS])"
proof -
  from assms(1) have "t = [SerperRequest question MAX_SEARCH_RESULTS]"
    by (simp add: search_serper_Inr)
  with assms show ?thesis
    by (simp add: search_web_eq no_web_results_answer_def)
qed

theorem search_web_sentinel_fallback_witness:
  "search_serper no_results_env ''What is new today?'' MAX_SEARCH_RESULTS =
     (Inr empty_results, [SerperRequest ''What is new today?'' MAX_SEARCH_RESULTS])
   \<and> format_search_results empty_results = ''No search results found.''
   \<and> search_web no_results_env ''What is new today?'' =
           (Inr \<lparr>web_answer = ''I couldn't find any relevant web search results for your query.'',
                 web_sources = [], raw_results = empty_results, web_mode = None\<rparr>,
            [SerperRequest ''What is new today?'' MAX_SEARCH_RESULTS])"
proof -
  have h1: "search_serper no_results_env ''What is new today?'' MAX_SEARCH_RESULTS =
     (Inr empty_results, [SerperRequest ''What is new today?'' MAX_SEARCH_RESULTS])"
    by code_simp
  have h2: "format_search_results empty_results = ''No search results found.''"
    by code_simp
  from search_web_sentinel_fallback[OF h1 h2] h1 h2 show ?thesis by simp
qed

text \<open>
  Claim C10. A search response with no organic result but a usable featured answer or
  knowledge graph is not formatted to the sentinel; \<open>search_web\<close> calls the generator on
  it and returns the generated answer with an empty list of sources.
\<close>

theorem search_web_answer_without_sources:
  assumes "search_serper env question MAX_SEARCH_RESULTS = (Inr results, t)"
    and "organic results = []"
    and "usable_featured_answer results \<or> usable_knowledge_graph results"
    and "OPENAI_API_KEY env \<noteq> []"
    and "chain_invoke env
           (WEB_SEARCH_PROMPT_TEMPLATE (format_search_results results) question) = Inr content"
  shows "format_search_results results \<noteq> ''No search results found.''
         \<and> search_web env question =
             (Inr \<lparr>web_answer = content, web_sources = [], raw_results = results,
                   web_mode = None\<rparr>,
              [SerperRequest question MAX_SEARCH_RESULTS, GetLLM,
               LLMInvoke (WEB_SEARCH_PROMPT_TEMPLATE (format_search_results results) question)])"
proof -
  from assms(3) have ns: "format_search_results results \<noteq> ''No search results found.''"
    by (auto simp: format_sentinel_iff)
  from assms(1) have t: "t = [SerperRequest question MAX_SEARCH_RESULTS]"
    by (simp add: search_serper_Inr)
  from assms ns t show ?thesis
    by (simp add: search_web_eq extract_sources_def)
qed

theorem search_web_answer_without_sources_witness:
  "search_serper featured_only_env ''What is the answer?'' MAX_SEARCH_RESULTS =
     (Inr featured_only_search, [SerperRequest ''What is the answer?'' MAX_SEARCH_RESULTS])
   \<and> organic featured_only_search = []
   \<and> usable_featured_answer featured_only_search
   \<and> format_search_results featured_only_search = ''[Featured Answer]\<newline>42\<newline>''
   \<and> search_web featured_only_env ''What is the answer?'' =
             (Inr \<lparr>web_answer = ''web answer'', web_sources = [],
                   raw_results = featured_only_search, web_mode = None\<rparr>,
              [SerperRequest ''What is the answer?'' MAX_SEARCH_RESULTS, GetLLM,
               LLMInvoke (WEB_SEARCH_PROMPT_TEMPLATE ''[Featured Answer]\<newline>42\<newline>''
                 ''What is the answer?'')])"
proof -
  have h1: "search_serper featured_only_env ''What is the answer?'' MAX_SEARCH_RESULTS =
     (Inr featured_only_search, [SerperRequest ''What is the answer?'' MAX_SEARCH_RESULTS])"
    by code_simp
  have h2: "organic featured_only_search = []" by code_simp
  have h3: "usable_featured_answer featured_only_search \<or> usable_knowledge_graph featured_only_search"
    by code_simp
  have h3': "usable_featured_answer featured_only_search" by code_simp
  have h4: "OPENAI_API_KEY featured_only_env \<noteq> []" by code_simp
  have f: "format_search_results featured_only_search = ''[Featured Answer]\<newline>42\<newline>''"
    by code_simp
  have h5: "chain_invoke featured_only_env
           (WEB_SEARCH_PROMPT_TEMPLATE (format_search_results featured_only_search)
              ''What is the answer?'') = Inr ''web answer''"
    by code_simp
  from search_web_answer_without_sources[OF h1 h2 h3 h4 h5] h1 h2 h3' f
  show ?thesis by simp
qed

section \<open>The fusion\<close>

lemma hybrid_fusion_eq:
  "hybrid_fusion env q dc =
     (let rr = fst (get_rag_results env q dc); t1 = snd (get_rag_results env q dc);
          wr = fst (get_web_results env q); t2 = snd (get_web_results env q);
          p = HYBRID_PROMPT_TEMPLATE (rag_context rr) (web_answer wr) q
      in if OPENAI_API_KEY env = []
         then (Inl (ValueError ''OPENAI_API_KEY is not set. Please set it in your .env file.''),
               t1 @ t2 @ [GetLLM])
         else (case chain_invoke env p of
                 Inl e \<Rightarrow> (Inl e, t1 @ t2 @ [GetLLM, LLMInvoke p])
               | Inr a \<Rightarrow>
                   (Inr (Hybrid \<lparr>hyb_answer = a,
                           hyb_sources = map DocumentEntry (rag_sources rr)
                                         @ map web_entry (web_sources wr),
                           hyb_mode = ''hybrid'', hyb_rag_context = rag_context rr,
                           hyb_web_results = raw_results wr\<rparr>),
                    t1 @ t2 @ [GetLLM, LLMInvoke p])))"
  by (simp add: hybrid_fusion_def generate_eq bind_io_def return_io_def dict_get_def
      Let_def split: sum.splits prod.splits)

lemma query_hybrid_fusion:
  assumes "auto_route \<longrightarrow> fst (route_query env q) = Inr ''hybrid''"
  shows "query_hybrid env q auto_route =
           (fst (hybrid_fusion env q (get_document_count env)),
            (if auto_route then snd (route_query env q) else [])
              @ snd (hybrid_fusion env q (get_document_count env)))"
proof (cases auto_route)
  case False
  then show ?thesis by (simp add: query_hybrid_def)
next
  case True
  with assms obtain t0 where "route_query env q = (Inr ''hybrid'', t0)"
    by (cases "route_query env q") auto
  with True show ?thesis
    by (simp add: query_hybrid_def bind_io_def split: prod.splits)
qed

lemma query_hybrid_Hybrid:
  assumes "query_hybrid env q auto_route = (Inr (Hybrid r), t)"
  shows "\<exists>t0 t'. hybrid_fusion env q (get_document_count env) = (Inr (Hybrid r), t')
                   \<and> t = t0 @ t'"
proof (cases auto_route)
  case False
  with assms show ?thesis by (simp add: query_hybrid_def)
next
  case True
  with assms show ?thesis
    by (auto simp: query_hybrid_def bind_io_def return_io_def Let_def
        split: prod.splits sum.splits if_splits)
qed

lemma hybrid_fusion_Hybrid:
  assumes "hybrid_fusion env q dc = (Inr (Hybrid r), t')"
  shows "\<exists>rr t1 wr t2.
           get_rag_results env q dc = (rr, t1) \<and> get_web_results env q = (wr, t2)
           \<and> OPENAI_API_KEY env \<noteq> []
           \<and> chain_invoke env (HYBRID_PROMPT_TEMPLATE (rag_context rr) (web_answer wr) q)
               = Inr (hyb_answer r)
           \<and> hyb_sources r = map DocumentEntry (rag_sources rr) @ map web_entry (web_sources wr)
           \<and> hyb_mode r = ''hybrid''
           \<and> hyb_rag_context r = rag_context rr
           \<and> hyb_web_results r = raw_results wr
           \<and> t' = t1 @ t2
                  @ [GetLLM, LLMInvoke (HYBRID_PROMPT_TEMPLATE (rag_context rr) (web_answer wr) q)]"
  using assms
  by (cases "get_rag_results env q dc"; cases "get_web_results env q")
     (auto simp: hybrid_fusion_eq Let_def split: if_splits sum.splits)

lemma get_rag_results_cases:
  assumes "get_rag_results env q dc = (rr, t1)"
  shows "(\<not> 0 < dc \<and> rr = rag_result_default \<and> t1 = [])
       \<or> (0 < dc \<and> (\<exists>e. query_rag env q TOP_K_RESULTS = (Inl e, t1)
              \<and> rr = rag_result_default\<lparr>rag_context :=
                        ''Error retrieving from documents: '' @ str_of_error e\<rparr>))
       \<or> (0 < dc \<and> query_rag env q TOP_K_RESULTS = (Inr rr, t1))"
  using assms
  by (auto simp: get_rag_results_def split: if_splits prod.splits sum.splits)

lemma get_web_results_cases:
  assumes "get_web_results env q = (wr, t2)"
  shows "(\<exists>e. search_web env q = (Inl e, t2)
              \<and> wr = web_result_default\<lparr>web_answer :=
                        ''Error searching web: '' @ str_of_error e\<rparr>)
       \<or> search_web env q = (Inr wr, t2)"
  using assms
  by (auto simp: get_web_results_def split: prod.splits sum.splits)

lemma query_rag_Inr_cases:
  assumes "query_rag env q k = (Inr rr, t)"
  shows "(rag_sources rr = [] \<and> rag_context rr = []
            \<and> (get_document_count env = 0 \<or> vector_similarity_search env q k = Inr []))
       \<or> (\<exists>ds. get_document_count env \<noteq> 0 \<and> vector_similarity_search env q k = Inr ds
              \<and> ds \<noteq> [] \<and> OPENAI_API_KEY env \<noteq> []
              \<and> chain_invoke env (RAG_PROMPT_TEMPLATE (format_context ds) q) = Inr (rag_answer rr)
              \<and> rag_sources rr = list_of_set env (map doc_source ds)
              \<and> rag_context rr = format_context ds
              \<and> t = [SimilaritySearch q k, GetLLM,
                      LLMInvoke (RAG_PROMPT_TEMPLATE (format_context ds) q)])"
  using assms
  by (auto simp: query_rag_eq split: if_splits sum.splits)

lemma search_web_Inr_cases:
  assumes "search_web env q = (Inr wr, t)"
  shows "requests_post env q MAX_SEARCH_RESULTS = Inr (raw_results wr)
       \<and> ((format_search_results (raw_results wr) = ''No search results found.''
             \<and> web_sources wr = [] \<and> t = [SerperRequest q MAX_SEARCH_RESULTS])
          \<or> (format_search_results (raw_results wr) \<noteq> ''No search results found.''
             \<and> OPENAI_API_KEY env \<noteq> []
             \<and> chain_invoke env
                  (WEB_SEARCH_PROMPT_TEMPLATE (format_search_results (raw_results wr)) q)
                 = Inr (web_answer wr)
             \<and> web_sources wr = extract_sources (raw_results wr)
             \<and> t = [SerperRequest q MAX_SEARCH_RESULTS, GetLLM,
                     LLMInvoke (WEB_SEARCH_PROMPT_TEMPLATE
                                  (format_search_results (raw_results wr)) q)]))"
proof (cases "search_serper env q MAX_SEARCH_RESULTS")
  case (Pair res ts)
  show ?thesis
  proof (cases res)
    case (Inl e)
    with Pair assms show ?thesis by (simp add: search_web_eq)
  next
    case (Inr sr)
    with Pair have s: "search_serper env q MAX_SEARCH_RESULTS = (Inr sr, ts)" by simp
    then have k: "requests_post env q MAX_SEARCH_RESULTS = Inr sr"
      and ts: "ts = [SerperRequest q MAX_SEARCH_RESULTS]"
      by (simp_all add: search_serper_Inr)
    from assms s k ts show ?thesis
      by (auto simp: search_web_eq split: if_splits sum.splits)
  qed
qed







lemma search_web_requests:
  assumes "search_web env q = (Inr wr, tw)"
  shows "SerperRequest q MAX_SEARCH_RESULTS \<in> set tw"
  using search_web_Inr_cases[OF assms] by auto

text \<open>
  Claim C4. When the document sub-query raises inside the fusion and the web search
  returns, \<open>query_hybrid\<close> still returns: the message becomes the document context
  \<open>Error retrieving from documents: <message>\<close>, the web search runs after the failed
  sub-query, the mode is \<open>hybrid\<close> and the sources are the web entries of the search.
\<close>

theorem query_hybrid_document_failure:
  assumes c: "0 < get_document_count env"
    and d: "query_rag env question TOP_K_RESULTS = (Inl e, tr)"
    and w: "search_web env question = (Inr wr, tw)"
    and f: "auto_route \<longrightarrow> fst (route_query env question) = Inr ''hybrid''"
    and k: "OPENAI_API_KEY env \<noteq> []"
    and g: "chain_invoke env
              (HYBRID_PROMPT_TEMPLATE (''Error retrieving from documents: '' @ str_of_error e)
                 (web_answer wr) question) = Inr content"
  shows "query_hybrid env question auto_route =
           (Inr (Hybrid \<lparr>hyb_answer = content,
                         hyb_sources = map web_entry (web_sources wr),
                         hyb_mode = ''hybrid'',
                         hyb_rag_context =
                           ''Error retrieving from documents: '' @ str_of_error e,
                         hyb_web_results = raw_results wr\<rparr>),
            (if auto_route then snd (route_query env question) else [])
              @ tr @ tw
              @ [GetLLM,
                 LLMInvoke (HYBRID_PROMPT_TEMPLATE
                   (''Error retrieving from documents: '' @ str_of_error e)
                   (web_answer wr) question)])
         \<and> SerperRequest question MAX_SEARCH_RESULTS \<in> set tw"
proof -
  from c d have r: "get_rag_results env question (get_document_count env) =
      (rag_result_default\<lparr>rag_context :=
         ''Error retrieving from documents: '' @ str_of_error e\<rparr>, tr)"
    by (simp add: get_rag_results_def)
  from w have s: "get_web_results env question = (wr, tw)"
    by (simp add: get_web_results_def)
  from r s k g have h: "hybrid_fusion env question (get_document_count env) =
           (Inr (Hybrid \<lparr>hyb_answer = content,
                         hyb_sources = map web_entry (web_sources wr),
                         hyb_mode = ''hybrid'',
                         hyb_rag_context =
                           ''Error retrieving from documents: '' @ str_of_error e,
                         hyb_web_results = raw_results wr\<rparr>),
            tr @ tw
              @ [GetLLM,
                 LLMInvoke (HYBRID_PROMPT_TEMPLATE
                   (''Error retrieving from documents: '' @ str_of_error e)
                   (web_answer wr) question)])"
    by (simp add: hybrid_fusion_eq Let_def rag_result_default_def)
  from query_hybrid_fusion[OF f] h search_web_requests[OF w] show ?thesis by simp
qed

theorem query_hybrid_document_failure_witness:
  "0 < get_document_count retrieval_error_env
   \<and> fst (query_rag retrieval_error_env ''What changed in the report?'' TOP_K_RESULTS)
       = Inl (Exception ''index unavailable'')
   \<and> fst (route_query retrieval_error_env ''What changed in the report?'') = Inr ''hybrid''
   \<and> fst (query_hybrid retrieval_error_env ''What changed in the report?'' True) =
       Inr (Hybrid \<lparr>hyb_answer = ''fused answer'',
                    hyb_sources = [WebEntry ''One'' ''http://one'', WebEntry ''Two'' ''http://two'',
                                   WebEntry ''Unknown'' []],
                    hyb_mode = ''hybrid'',
                    hyb_rag_context = ''Error retrieving from documents: index unavailable'',
                    hyb_web_results = example_search\<rparr>)
   \<and> SerperRequest ''What changed in the report?'' MAX_SEARCH_RESULTS
       \<in> set (snd (query_hybrid retrieval_error_env ''What changed in the report?'' True))"
proof -
  let ?q = "''What changed in the report?''"
  let ?env = retrieval_error_env
  have c: "0 < get_document_count ?env" by code_simp
  have d0: "fst (query_rag ?env ?q TOP_K_RESULTS) = Inl (Exception ''index unavailable'')"
    by code_simp
  then have d: "query_rag ?env ?q TOP_K_RESULTS =
      (Inl (Exception ''index unavailable''), snd (query_rag ?env ?q TOP_K_RESULTS))"
    by (metis prod.collapse)
  have w0: "fst (search_web ?env ?q) =
      Inr \<lparr>web_answer = ''web answer'', web_sources = extract_sources example_search,
            raw_results = example_search, web_mode = None\<rparr>"
    by code_simp
  then have w: "search_web ?env ?q =
      (Inr \<lparr>web_answer = ''web answer'', web_sources = extract_sources example_search,
            raw_results = example_search, web_mode = None\<rparr>, snd (search_web ?env ?q))"
    by (metis prod.collapse)
  have f0: "fst (route_query ?env ?q) = Inr ''hybrid''" by code_simp
  then have f: "True \<longrightarrow> fst (route_query ?env ?q) = Inr ''hybrid''" by simp
  have k: "OPENAI_API_KEY ?env \<noteq> []" by code_simp
  have g: "chain_invoke ?env
              (HYBRID_PROMPT_TEMPLATE
                 (''Error retrieving from documents: '' @ str_of_error (Exception ''index unavailable''))
                 (web_answer \<lparr>web_answer = ''web answer'',
                    web_sources = extract_sources example_search,
                    raw_results = example_search, web_mode = None\<rparr>) ?q) = Inr ''fused answer''"
    by code_simp
  have m: "map web_entry (extract_sources example_search) =
      [WebEntry ''One'' ''http://one'', WebEntry ''Two'' ''http://two'', WebEntry ''Unknown'' []]"
    by code_simp
  from query_hybrid_document_failure[OF c d w f k g] m c d0 f0 show ?thesis
    by simp
qed

subsection \<open>What reaches a prompt\<close>

lemma sublist_join:
  "p \<in> set parts \<Longrightarrow> sublist p (join sep parts)"
proof (induction sep parts rule: join.induct)
  case (1 sep)
  then show ?case by simp
next
  case (2 sep x)
  then show ?case by simp
next
  case (3 sep x y ys)
  show ?case
  proof (cases "p = x")
    case True
    then show ?thesis by simp
  next
    case False
    with 3 have "sublist p (join sep (y # ys))" by auto
    then obtain ps ss where "join sep (y # ys) = ps @ p @ ss"
      by (auto simp: sublist_def)
    then have "join sep (x # y # ys) = (x @ sep @ ps) @ p @ ss" by simp
    then show ?thesis unfolding sublist_def by blast
  qed
qed

lemma nth_enumerated:
  "i < length xs \<Longrightarrow> map f (List.enumerate 1 xs) ! i = f (i + 1, xs ! i)"
  by (simp add: nth_enumerate_eq)

lemma context_part_in_context:
  assumes "i < length ds"
  shows "sublist (context_part (i + 1, ds ! i)) (format_context ds)"
proof -
  from assms have "map context_part (List.enumerate 1 ds) ! i = context_part (i + 1, ds ! i)"
    by (rule nth_enumerated)
  moreover from assms have "i < length (map context_part (List.enumerate 1 ds))" by simp
  ultimately have "context_part (i + 1, ds ! i) \<in> set (map context_part (List.enumerate 1 ds))"
    by (metis nth_mem)
  then show ?thesis unfolding format_context_def by (rule sublist_join)
qed

lemma page_content_in_part: "sublist (page_content d) (context_part (i, d))"
proof -
  have "context_part (i, d) =
          (''[Document '' @ str_nat i @ '' - Source: '' @ doc_source d @ '']'' @ nl)
            @ page_content d @ nl"
    by (simp add: context_part_def)
  then show ?thesis unfolding sublist_def by blast
qed

lemma page_content_in_context:
  assumes "i < length ds"
  shows "sublist (page_content (ds ! i)) (format_context ds)"
  using page_content_in_part context_part_in_context[OF assms]
  by (rule sublist_order.order.trans)

lemma result_part_in_results:
  assumes "i < length (organic results)"
  shows "sublist (result_part (i + 1, organic results ! i)) (format_search_results results)"
proof -
  from assms have "organic_blocks results ! i = result_part (i + 1, organic results ! i)"
    unfolding organic_blocks_def by (rule nth_enumerated)
  moreover from assms have "i < length (organic_blocks results)"
    by (simp add: organic_blocks_def)
  ultimately have m: "result_part (i + 1, organic results ! i) \<in> set (organic_blocks results)"
    by (metis nth_mem)
  then have "result_part (i + 1, organic results ! i)
               \<in> set (knowledge_graph_block results @ featured_answer_block results
                        @ organic_blocks results)"
    by simp
  then have "sublist (result_part (i + 1, organic results ! i))
               (join nl (knowledge_graph_block results @ featured_answer_block results
                           @ organic_blocks results))"
    by (rule sublist_join)
  moreover from m have "knowledge_graph_block results @ featured_answer_block results
                        @ organic_blocks results \<noteq> []"
    by auto
  ultimately show ?thesis by (simp add: format_search_results_blocks Let_def)
qed

lemma fields_in_result_part:
  "sublist (dict_get (title result) ''No title'') (result_part (i, result))
   \<and> sublist (dict_get (snippet result) ''No description'') (result_part (i, result))
   \<and> sublist (dict_get (link result) []) (result_part (i, result))"
proof -
  let ?t = "dict_get (title result) ''No title''"
  let ?s = "dict_get (snippet result) ''No description''"
  let ?l = "dict_get (link result) []"
  have 1: "result_part (i, result) =
          (''[Result '' @ str_nat i @ '']'' @ nl @ ''Title: '') @ ?t
            @ (nl @ ''Snippet: '' @ ?s @ nl @ ''URL: '' @ ?l @ nl)"
    by (simp add: result_part_def)
  have 2: "result_part (i, result) =
          (''[Result '' @ str_nat i @ '']'' @ nl @ ''Title: '' @ ?t @ nl @ ''Snippet: '') @ ?s
            @ (nl @ ''URL: '' @ ?l @ nl)"
    by (simp add: result_part_def)
  have 3: "result_part (i, result) =
          (''[Result '' @ str_nat i @ '']'' @ nl @ ''Title: '' @ ?t @ nl @ ''Snippet: '' @ ?s
             @ nl @ ''URL: '') @ ?l @ nl"
    by (simp add: result_part_def)
  from 1 2 3 show ?thesis unfolding sublist_def by blast
qed

lemma query_rag_used:
  assumes ok: "set_listing_ok env" and r: "query_rag env question k = (Inr r, t)"
  shows "(\<forall>name \<in> set (rag_sources r).
            \<exists>ds i. vector_similarity_search env question k = Inr ds
                 \<and> i < length ds \<and> doc_source (ds ! i) = name
                 \<and> sublist (context_part (i + 1, ds ! i)) (rag_context r)
                 \<and> sublist (page_content (ds ! i)) (rag_context r)
                 \<and> LLMInvoke (RAG_PROMPT_TEMPLATE (rag_context r) question) \<in> set t
                 \<and> chain_invoke env (RAG_PROMPT_TEMPLATE (rag_context r) question)
                     = Inr (rag_answer r))
       \<and> (get_document_count env = 0 \<or> vector_similarity_search env question k = Inr []
            \<longrightarrow> rag_sources r = [])"
proof -
  from query_rag_Inr_cases[OF r]
  consider (none) "rag_sources r = []"
      "get_document_count env = 0 \<or> vector_similarity_search env question k = Inr []"
    | (some) ds where "get_document_count env \<noteq> 0"
      "vector_similarity_search env question k = Inr ds" "ds \<noteq> []"
      "chain_invoke env (RAG_PROMPT_TEMPLATE (format_context ds) question) = Inr (rag_answer r)"
      "rag_sources r = list_of_set env (map doc_source ds)"
      "rag_context r = format_context ds"
      "t = [SimilaritySearch question k, GetLLM,
            LLMInvoke (RAG_PROMPT_TEMPLATE (format_context ds) question)]"
    by blast
  then show ?thesis
  proof cases
    case none
    then show ?thesis by simp
  next
    case some
    have "\<exists>ds' i. vector_similarity_search env question k = Inr ds'
                 \<and> i < length ds' \<and> doc_source (ds' ! i) = name
                 \<and> sublist (context_part (i + 1, ds' ! i)) (rag_context r)
                 \<and> sublist (page_content (ds' ! i)) (rag_context r)
                 \<and> LLMInvoke (RAG_PROMPT_TEMPLATE (rag_context r) question) \<in> set t
                 \<and> chain_invoke env (RAG_PROMPT_TEMPLATE (rag_context r) question)
                     = Inr (rag_answer r)"
      if "name \<in> set (rag_sources r)" for name
    proof -
      from that some(5) ok have "name \<in> set (map doc_source ds)"
        by (simp add: set_listing_ok_def)
      then obtain i where i: "i < length ds" "doc_source (ds ! i) = name"
        by (auto simp: in_set_conv_nth)
      from i(1) have "sublist (context_part (i + 1, ds ! i)) (rag_context r)"
        and "sublist (page_content (ds ! i)) (rag_context r)"
        unfolding some(6)
        by (rule context_part_in_context, rule page_content_in_context)
      with i some show ?thesis by auto
    qed
    moreover have "rag_sources r = []"
      if "get_document_count env = 0 \<or> vector_similarity_search env question k = Inr []"
      using that some by auto
    ultimately show ?thesis by blast
  qed
qed

lemma search_web_used:
  assumes r: "search_web env question = (Inr r, t)"
  shows "(\<forall>s \<in> set (web_sources r).
            \<exists>i. requests_post env question MAX_SEARCH_RESULTS = Inr (raw_results r)
               \<and> i < length (organic (raw_results r))
               \<and> s = \<lparr>ws_title = dict_get (title (organic (raw_results r) ! i)) ''Unknown'',
                      ws_url = dict_get (link (organic (raw_results r) ! i)) []\<rparr>
               \<and> sublist (result_part (i + 1, organic (raw_results r) ! i))
                    (format_search_results (raw_results r))
               \<and> sublist (ws_url s) (format_search_results (raw_results r))
               \<and> sublist (dict_get (title (organic (raw_results r) ! i)) ''No title'')
                    (format_search_results (raw_results r))
               \<and> sublist (dict_get (snippet (organic (raw_results r) ! i)) ''No description'')
                    (format_search_results (raw_results r))
               \<and> LLMInvoke (WEB_SEARCH_PROMPT_TEMPLATE
                              (format_search_results (raw_results r)) question) \<in> set t
               \<and> chain_invoke env (WEB_SEARCH_PROMPT_TEMPLATE
                                    (format_search_results (raw_results r)) question)
                   = Inr (web_answer r))
       \<and> (organic (raw_results r) = [] \<longrightarrow> web_sources r = [])"
proof -
  let ?sr = "raw_results r"
  have e: "organic ?sr = [] \<longrightarrow> web_sources r = []"
    using search_web_Inr_cases[OF r] by (auto simp: extract_sources_def)
  have "\<exists>i. requests_post env question MAX_SEARCH_RESULTS = Inr ?sr
               \<and> i < length (organic ?sr)
               \<and> s = \<lparr>ws_title = dict_get (title (organic ?sr ! i)) ''Unknown'',
                      ws_url = dict_get (link (organic ?sr ! i)) []\<rparr>
               \<and> sublist (result_part (i + 1, organic ?sr ! i)) (format_search_results ?sr)
               \<and> sublist (ws_url s) (format_search_results ?sr)
               \<and> sublist (dict_get (title (organic ?sr ! i)) ''No title'')
                    (format_search_results ?sr)
               \<and> sublist (dict_get (snippet (organic ?sr ! i)) ''No description'')
                    (format_search_results ?sr)
               \<and> LLMInvoke (WEB_SEARCH_PROMPT_TEMPLATE (format_search_results ?sr) question)
                   \<in> set t
               \<and> chain_invoke env (WEB_SEARCH_PROMPT_TEMPLATE (format_search_results ?sr)
                                    question) = Inr (web_answer r)"
    if s: "s \<in> set (web_sources r)" for s
  proof -
    from search_web_Inr_cases[OF r] s
    have p: "requests_post env question MAX_SEARCH_RESULTS = Inr ?sr"
      and w: "web_sources r = extract_sources ?sr"
      and c: "chain_invoke env (WEB_SEARCH_PROMPT_TEMPLATE (format_search_results ?sr)
                                    question) = Inr (web_answer r)"
      and l: "LLMInvoke (WEB_SEARCH_PROMPT_TEMPLATE (format_search_results ?sr) question)
                   \<in> set t"
      by auto
    from s w obtain i where i: "i < length (organic ?sr)"
      and si: "s = \<lparr>ws_title = dict_get (title (organic ?sr ! i)) ''Unknown'',
                      ws_url = dict_get (link (organic ?sr ! i)) []\<rparr>"
      by (auto simp: extract_sources_def in_set_conv_nth)
    from i have rp: "sublist (result_part (i + 1, organic ?sr ! i)) (format_search_results ?sr)"
      by (rule result_part_in_results)
    have "sublist (dict_get (link (organic ?sr ! i)) []) (result_part (i + 1, organic ?sr ! i))"
      using fields_in_result_part by blast
    from this rp have "sublist (dict_get (link (organic ?sr ! i)) []) (format_search_results ?sr)"
      by (rule sublist_order.order.trans)
    then have u: "sublist (ws_url s) (format_search_results ?sr)" by (simp add: si)
    have "sublist (dict_get (title (organic ?sr ! i)) ''No title'')
            (result_part (i + 1, organic ?sr ! i))"
      using fields_in_result_part by blast
    from this rp have ut: "sublist (dict_get (title (organic ?sr ! i)) ''No title'')
                             (format_search_results ?sr)"
      by (rule sublist_order.order.trans)
    have "sublist (dict_get (snippet (organic ?sr ! i)) ''No description'')
            (result_part (i + 1, organic ?sr ! i))"
      using fields_in_result_part by blast
    from this rp have us: "sublist (dict_get (snippet (organic ?sr ! i)) ''No description'')
                             (format_search_results ?sr)"
      by (rule sublist_order.order.trans)
    from p i si rp u ut us l c show ?thesis by blast
  qed
  with e show ?thesis by blast
qed

lemma query_hybrid_used:
  assumes ok: "set_listing_ok env"
    and res: "query_hybrid env question auto_route = (Inr (Hybrid r), t)"
  shows "\<exists>web_context.
           LLMInvoke (HYBRID_PROMPT_TEMPLATE (hyb_rag_context r) web_context question) \<in> set t
         \<and> chain_invoke env (HYBRID_PROMPT_TEMPLATE (hyb_rag_context r) web_context question)
             = Inr (hyb_answer r)
         \<and> (\<forall>name. DocumentEntry name \<in> set (hyb_sources r) \<longrightarrow>
              0 < get_document_count env
              \<and> (\<exists>rr tr ds i.
                    query_rag env question TOP_K_RESULTS = (Inr rr, tr)
                  \<and> name \<in> set (rag_sources rr)
                  \<and> hyb_rag_context r = rag_context rr
                  \<and> vector_similarity_search env question TOP_K_RESULTS = Inr ds
                  \<and> i < length ds \<and> doc_source (ds ! i) = name
                  \<and> sublist (context_part (i + 1, ds ! i)) (hyb_rag_context r)
                  \<and> sublist (page_content (ds ! i)) (hyb_rag_context r)))
         \<and> (\<forall>ti url. WebEntry ti url \<in> set (hyb_sources r) \<longrightarrow>
              (\<exists>wr tw i.
                    search_web env question = (Inr wr, tw)
                  \<and> web_context = web_answer wr
                  \<and> hyb_web_results r = raw_results wr
                  \<and> i < length (organic (raw_results wr))
                  \<and> ti = dict_get (title (organic (raw_results wr) ! i)) ''Unknown''
                  \<and> url = dict_get (link (organic (raw_results wr) ! i)) []
                  \<and> sublist (result_part (i + 1, organic (raw_results wr) ! i))
                       (format_search_results (raw_results wr))
                  \<and> LLMInvoke (WEB_SEARCH_PROMPT_TEMPLATE
                                 (format_search_results (raw_results wr)) question) \<in> set t
                  \<and> chain_invoke env (WEB_SEARCH_PROMPT_TEMPLATE
                                       (format_search_results (raw_results wr)) question)
                      = Inr (web_answer wr)))
         \<and> (\<not> 0 < get_document_count env
              \<or> (\<exists>e tr. query_rag env question TOP_K_RESULTS = (Inl e, tr))
              \<longrightarrow> (\<forall>name. DocumentEntry name \<notin> set (hyb_sources r)))
         \<and> ((\<exists>e tw. search_web env question = (Inl e, tw))
              \<longrightarrow> (\<forall>ti url. WebEntry ti url \<notin> set (hyb_sources r)))"
proof -
  from query_hybrid_Hybrid[OF res] obtain t0 t'
    where f: "hybrid_fusion env question (get_document_count env) = (Inr (Hybrid r), t')"
      and t: "t = t0 @ t'"
    by blast
  from hybrid_fusion_Hybrid[OF f] obtain rr t1 wr t2
    where g: "get_rag_results env question (get_document_count env) = (rr, t1)"
      and w: "get_web_results env question = (wr, t2)"
      and a: "chain_invoke env (HYBRID_PROMPT_TEMPLATE (rag_context rr) (web_answer wr) question)
               = Inr (hyb_answer r)"
      and s: "hyb_sources r = map DocumentEntry (rag_sources rr) @ map web_entry (web_sources wr)"
      and c: "hyb_rag_context r = rag_context rr"
      and raw: "hyb_web_results r = raw_results wr"
      and t': "t' = t1 @ t2
                 @ [GetLLM, LLMInvoke (HYBRID_PROMPT_TEMPLATE (rag_context rr) (web_answer wr)
                                         question)]"
    by blast
  have docs: "DocumentEntry name \<in> set (hyb_sources r) \<longleftrightarrow> name \<in> set (rag_sources rr)"
    for name
    using s by (auto simp: web_entry_def)
  have webs: "WebEntry ti url \<in> set (hyb_sources r)
                \<longleftrightarrow> \<lparr>ws_title = ti, ws_url = url\<rparr> \<in> set (web_sources wr)"
    for ti url
  proof -
    have "WebEntry ti url = web_entry x \<longleftrightarrow> x = \<lparr>ws_title = ti, ws_url = url\<rparr>" for x
      by (cases x) (auto simp: web_entry_def)
    with s show ?thesis by (auto simp: image_iff)
  qed
  have 1: "LLMInvoke (HYBRID_PROMPT_TEMPLATE (hyb_rag_context r) (web_answer wr) question)
             \<in> set t"
    using t t' c by simp
  have 2: "chain_invoke env (HYBRID_PROMPT_TEMPLATE (hyb_rag_context r) (web_answer wr) question)
             = Inr (hyb_answer r)"
    using a c by simp
  have 3: "0 < get_document_count env
              \<and> (\<exists>rr tr ds i.
                    query_rag env question TOP_K_RESULTS = (Inr rr, tr)
                  \<and> name \<in> set (rag_sources rr)
                  \<and> hyb_rag_context r = rag_context rr
                  \<and> vector_similarity_search env question TOP_K_RESULTS = Inr ds
                  \<and> i < length ds \<and> doc_source (ds ! i) = name
                  \<and> sublist (context_part (i + 1, ds ! i)) (hyb_rag_context r)
                  \<and> sublist (page_content (ds ! i)) (hyb_rag_context r))"
    if "DocumentEntry name \<in> set (hyb_sources r)" for name
  proof -
    from that have n: "name \<in> set (rag_sources rr)" by (simp add: docs)
    with get_rag_results_cases[OF g]
    have p: "0 < get_document_count env"
      and q: "query_rag env question TOP_K_RESULTS = (Inr rr, t1)"
      by (auto simp: rag_result_default_def)
    from query_rag_used[OF ok q] n obtain ds i
      where "vector_similarity_search env question TOP_K_RESULTS = Inr ds"
        and "i < length ds" and "doc_source (ds ! i) = name"
        and "sublist (context_part (i + 1, ds ! i)) (rag_context rr)"
        and "sublist (page_content (ds ! i)) (rag_context rr)"
      by blast
    with p q n c show ?thesis by auto
  qed
  have 4: "\<exists>wr' tw i.
                    search_web env question = (Inr wr', tw)
                  \<and> web_answer wr = web_answer wr'
                  \<and> hyb_web_results r = raw_results wr'
                  \<and> i < length (organic (raw_results wr'))
                  \<and> ti = dict_get (title (organic (raw_results wr') ! i)) ''Unknown''
                  \<and> url = dict_get (link (organic (raw_results wr') ! i)) []
                  \<and> sublist (result_part (i + 1, organic (raw_results wr') ! i))
                       (format_search_results (raw_results wr'))
                  \<and> LLMInvoke (WEB_SEARCH_PROMPT_TEMPLATE
                                 (format_search_results (raw_results wr')) question) \<in> set t
                  \<and> chain_invoke env (WEB_SEARCH_PROMPT_TEMPLATE
                                       (format_search_results (raw_results wr')) question)
                      = Inr (web_answer wr')"
    if "WebEntry ti url \<in> set (hyb_sources r)" for ti url
  proof -
    from that have n: "\<lparr>ws_title = ti, ws_url = url\<rparr> \<in> set (web_sources wr)"
      by (simp add: webs)
    with get_web_results_cases[OF w]
    have q: "search_web env question = (Inr wr, t2)"
      by (auto simp: web_result_default_def)
    from search_web_used[OF q] n obtain i
      where i: "i < length (organic (raw_results wr))"
        and e: "\<lparr>ws_title = ti, ws_url = url\<rparr> =
                 \<lparr>ws_title = dict_get (title (organic (raw_results wr) ! i)) ''Unknown'',
                  ws_url = dict_get (link (organic (raw_results wr) ! i)) []\<rparr>"
        and sp: "sublist (result_part (i + 1, organic (raw_results wr) ! i))
                       (format_search_results (raw_results wr))"
        and l: "LLMInvoke (WEB_SEARCH_PROMPT_TEMPLATE
                                 (format_search_results (raw_results wr)) question) \<in> set t2"
        and ci: "chain_invoke env (WEB_SEARCH_PROMPT_TEMPLATE
                                       (format_search_results (raw_results wr)) question)
                      = Inr (web_answer wr)"
      by blast
    from l t t' have l': "LLMInvoke (WEB_SEARCH_PROMPT_TEMPLATE
                                 (format_search_results (raw_results wr)) question) \<in> set t"
      by simp
    from e have "ti = dict_get (title (organic (raw_results wr) ! i)) ''Unknown''"
      and "url = dict_get (link (organic (raw_results wr) ! i)) []"
      by simp_all
    with q raw i sp l' ci show ?thesis by blast
  qed
  have 5: "\<not> 0 < get_document_count env
              \<or> (\<exists>e tr. query_rag env question TOP_K_RESULTS = (Inl e, tr))
              \<longrightarrow> (\<forall>name. DocumentEntry name \<notin> set (hyb_sources r))"
    using get_rag_results_cases[OF g]
    by (auto simp: docs rag_result_default_def)
  have 6: "(\<exists>e tw. search_web env question = (Inl e, tw))
              \<longrightarrow> (\<forall>ti url. WebEntry ti url \<notin> set (hyb_sources r))"
    using get_web_results_cases[OF w]
    by (auto simp: webs web_result_default_def)
  show ?thesis
  proof (intro exI[of _ "web_answer wr"] conjI allI impI)
    show "LLMInvoke (HYBRID_PROMPT_TEMPLATE (hyb_rag_context r) (web_answer wr) question)
             \<in> set t" by (rule 1)
    show "chain_invoke env (HYBRID_PROMPT_TEMPLATE (hyb_rag_context r) (web_answer wr) question)
             = Inr (hyb_answer r)" by (rule 2)
  next
    fix name assume "DocumentEntry name \<in> set (hyb_sources r)"
    from 3[OF this] show "0 < get_document_count env" by blast
  next
    fix name assume "DocumentEntry name \<in> set (hyb_sources r)"
    from 3[OF this] show "\<exists>rr tr ds i.
                    query_rag env question TOP_K_RESULTS = (Inr rr, tr)
                  \<and> name \<in> set (rag_sources rr)
                  \<and> hyb_rag_context r = rag_context rr
                  \<and> vector_similarity_search env question TOP_K_RESULTS = Inr ds
                  \<and> i < length ds \<and> doc_source (ds ! i) = name
                  \<and> sublist (context_part (i + 1, ds ! i)) (hyb_rag_context r)
                  \<and> sublist (page_content (ds ! i)) (hyb_rag_context r)" by blast
  next
    fix ti url assume "WebEntry ti url \<in> set (hyb_sources r)"
    from 4[OF this] show "\<exists>wr' tw i.
                    search_web env question = (Inr wr', tw)
                  \<and> web_answer wr = web_answer wr'
                  \<and> hyb_web_results r = raw_results wr'
                  \<and> i < length (organic (raw_results wr'))
                  \<and> ti = dict_get (title (organic (raw_results wr') ! i)) ''Unknown''
                  \<and> url = dict_get (link (organic (raw_results wr') ! i)) []
                  \<and> sublist (result_part (i + 1, organic (raw_results wr') ! i))
                       (format_search_results (raw_results wr'))
                  \<and> LLMInvoke (WEB_SEARCH_PROMPT_TEMPLATE
                                 (format_search_results (raw_results wr')) question) \<in> set t
                  \<and> chain_invoke env (WEB_SEARCH_PROMPT_TEMPLATE
                                       (format_search_results (raw_results wr')) question)
                      = Inr (web_answer wr')" .
  next
    fix name
    assume "\<not> 0 < get_document_count env
              \<or> (\<exists>e tr. query_rag env question TOP_K_RESULTS = (Inl e, tr))"
    with 5 show "DocumentEntry name \<notin> set (hyb_sources r)" by blast
  next
    fix ti url
    assume "\<exists>e tw. search_web env question = (Inl e, tw)"
    with 6 show "WebEntry ti url \<notin> set (hyb_sources r)" by blast
  qed
qed

lemma query_hybrid_delegated_eq:
  "(\<forall>r t. query_hybrid env question auto_route = (Inr (Documents r), t) \<longrightarrow>
       (\<exists>rr tr. query_rag env question TOP_K_RESULTS = (Inr rr, tr)
            \<and> r = rr\<lparr>rag_mode := Some ''documents''\<rparr>))
   \<and> (\<forall>r t. query_hybrid env question auto_route = (Inr (Web r), t) \<longrightarrow>
       (\<exists>wr tw. search_web env question = (Inr wr, tw)
            \<and> r = wr\<lparr>web_mode := Some ''web''\<rparr>))"
proof -
  have nh: "hybrid_fusion env question dc \<noteq> (Inr (Documents r), t)
          \<and> hybrid_fusion env question dc \<noteq> (Inr (Web r'), t)" for dc r r' t
    by (auto simp: hybrid_fusion_eq Let_def split: sum.splits)
  show ?thesis
    using nh
    by (cases "route_query env question"; cases "query_rag env question TOP_K_RESULTS";
        cases "search_web env question")
       (auto simp: query_hybrid_def bind_io_def return_io_def Let_def
          split: if_splits sum.splits prod.splits)
qed

text \<open>
  Claim C5. Every source that a result of \<open>query_rag\<close>, \<open>search_web\<close> or \<open>query_hybrid\<close>
  cites was used to construct its answer. A cited document name is the source of a
  retrieved chunk whose formatted part, text included, lies inside the context, and the
  answer is what the generation call on that context returned. A cited web source is an
  organic result of the response whose formatted part (title, snippet, link) lies inside
  the formatted results, and the answer is what the generation call on them returned.
  In a fused result the answer is what the fusion call returned on the document context
  and the web answer; a document entry comes from a document sub-query that returned
  and whose context, holding the chunk, is the document context of that call, and a web
  entry from a web sub-query that returned and whose answer is its web context. A
  retrieval that failed, was skipped or returned nothing contributes no entry. A
  delegated result is the sub-query's result with the mode added.
\<close>

theorem provenance_only_from_used_evidence:
  assumes ok: "set_listing_ok env"
  shows
    "(\<forall>r t. query_rag env question k = (Inr r, t) \<longrightarrow>
        (\<forall>name \<in> set (rag_sources r).
            \<exists>ds i. vector_similarity_search env question k = Inr ds
                 \<and> i < length ds \<and> doc_source (ds ! i) = name
                 \<and> sublist (context_part (i + 1, ds ! i)) (rag_context r)
                 \<and> sublist (page_content (ds ! i)) (rag_context r)
                 \<and> LLMInvoke (RAG_PROMPT_TEMPLATE (rag_context r) question) \<in> set t
                 \<and> chain_invoke env (RAG_PROMPT_TEMPLATE (rag_context r) question)
                     = Inr (rag_answer r))
        \<and> (get_document_count env = 0 \<or> vector_similarity_search env question k = Inr []
             \<longrightarrow> rag_sources r = []))
   \<and> (\<forall>r t. search_web env question = (Inr r, t) \<longrightarrow>
        (\<forall>s \<in> set (web_sources r).
            \<exists>i. requests_post env question MAX_SEARCH_RESULTS = Inr (raw_results r)
               \<and> i < length (organic (raw_results r))
               \<and> s = \<lparr>ws_title = dict_get (title (organic (raw_results r) ! i)) ''Unknown'',
                      ws_url = dict_get (link (organic (raw_results r) ! i)) []\<rparr>
               \<and> sublist (result_part (i + 1, organic (raw_results r) ! i))
                    (format_search_results (raw_results r))
               \<and> sublist (ws_url s) (format_search_results (raw_results r))
               \<and> sublist (dict_get (title (organic (raw_results r) ! i)) ''No title'')
                    (format_search_results (raw_results r))
               \<and> sublist (dict_get (snippet (organic (raw_results r) ! i)) ''No description'')
                    (format_search_results (raw_results r))
               \<and> LLMInvoke (WEB_SEARCH_PROMPT_TEMPLATE
                              (format_search_results (raw_results r)) question) \<in> set t
               \<and> chain_invoke env (WEB_SEARCH_PROMPT_TEMPLATE
                                    (format_search_results (raw_results r)) question)
                   = Inr (web_answer r))
        \<and> (organic (raw_results r) = [] \<longrightarrow> web_sources r = []))
   \<and> (\<forall>r t. query_hybrid env question auto_route = (Inr (Hybrid r), t) \<longrightarrow>
        (\<exists>web_context.
           LLMInvoke (HYBRID_PROMPT_TEMPLATE (hyb_rag_context r) web_context question) \<in> set t
         \<and> chain_invoke env (HYBRID_PROMPT_TEMPLATE (hyb_rag_context r) web_context question)
             = Inr (hyb_answer r)
         \<and> (\<forall>name. DocumentEntry name \<in> set (hyb_sources r) \<longrightarrow>
              0 < get_document_count env
              \<and> (\<exists>rr tr ds i.
                    query_rag env question TOP_K_RESULTS = (Inr rr, tr)
                  \<and> name \<in> set (rag_sources rr)
                  \<and> hyb_rag_context r = rag_context rr
                  \<and> vector_similarity_search env question TOP_K_RESULTS = Inr ds
                  \<and> i < length ds \<and> doc_source (ds ! i) = name
                  \<and> sublist (context_part (i + 1, ds ! i)) (hyb_rag_context r)
                  \<and> sublist (page_content (ds ! i)) (hyb_rag_context r)))
         \<and> (\<forall>ti url. WebEntry ti url \<in> set (hyb_sources r) \<longrightarrow>
              (\<exists>wr tw i.
                    search_web env question = (Inr wr, tw)
                  \<and> web_context = web_answer wr
                  \<and> hyb_web_results r = raw_results wr
                  \<and> i < length (organic (raw_results wr))
                  \<and> ti = dict_get (title (organic (raw_results wr) ! i)) ''Unknown''
                  \<and> url = dict_get (link (organic (raw_results wr) ! i)) []
                  \<and> sublist (result_part (i + 1, organic (raw_results wr) ! i))
                       (format_search_results (raw_results wr))
                  \<and> LLMInvoke (WEB_SEARCH_PROMPT_TEMPLATE
                                 (format_search_results (raw_results wr)) question) \<in> set t
                  \<and> chain_invoke env (WEB_SEARCH_PROMPT_TEMPLATE
                                       (format_search_results (raw_results wr)) question)
                      = Inr (web_answer wr)))
         \<and> (\<not> 0 < get_document_count env
              \<or> (\<exists>e tr. query_rag env question TOP_K_RESULTS = (Inl e, tr))
              \<longrightarrow> (\<forall>name. DocumentEntry name \<notin> set (hyb_sources r)))
         \<and> ((\<exists>e tw. search_web env question = (Inl e, tw))
              \<longrightarrow> (\<forall>ti url. WebEntry ti url \<notin> set (hyb_sources r)))))
   \<and> (\<forall>r t. query_hybrid env question auto_route = (Inr (Documents r), t) \<longrightarrow>
        (\<exists>rr tr. query_rag env question TOP_K_RESULTS = (Inr rr, tr)
             \<and> r = rr\<lparr>rag_mode := Some ''documents''\<rparr>))
   \<and> (\<forall>r t. query_hybrid env question auto_route = (Inr (Web r), t) \<longrightarrow>
        (\<exists>wr tw. search_web env question = (Inr wr, tw)
             \<and> r = wr\<lparr>web_mode := Some ''web''\<rparr>))"
proof (intro conjI)
  show "\<forall>r t. query_rag env question k = (Inr r, t) \<longrightarrow>
        (\<forall>name \<in> set (rag_sources r).
            \<exists>ds i. vector_similarity_search env question k = Inr ds
                 \<and> i < length ds \<and> doc_source (ds ! i) = name
                 \<and> sublist (context_part (i + 1, ds ! i)) (rag_context r)
                 \<and> sublist (page_content (ds ! i)) (rag_context r)
                 \<and> LLMInvoke (RAG_PROMPT_TEMPLATE (rag_context r) question) \<in> set t
                 \<and> chain_invoke env (RAG_PROMPT_TEMPLATE (rag_context r) question)
                     = Inr (rag_answer r))
        \<and> (get_document_count env = 0 \<or> vector_similarity_search env question k = Inr []
             \<longrightarrow> rag_sources r = [])"
    by (intro allI impI) (rule query_rag_used[OF ok], assumption)
  show "\<forall>r t. search_web env question = (Inr r, t) \<longrightarrow>
        (\<forall>s \<in> set (web_sources r).
            \<exists>i. requests_post env question MAX_SEARCH_RESULTS = Inr (raw_results r)
               \<and> i < length (organic (raw_results r))
               \<and> s = \<lparr>ws_title = dict_get (title (organic (raw_results r) ! i)) ''Unknown'',
                      ws_url = dict_get (link (organic (raw_results r) ! i)) []\<rparr>
               \<and> sublist (result_part (i + 1, organic (raw_results r) ! i))
                    (format_search_results (raw_results r))
               \<and> sublist (ws_url s) (format_search_results (raw_results r))
               \<and> sublist (dict_get (title (organic (raw_results r) ! i)) ''No title'')
                    (format_search_results (raw_results r))
               \<and> sublist (dict_get (snippet (organic (raw_results r) ! i)) ''No description'')
                    (format_search_results (raw_results r))
               \<and> LLMInvoke (WEB_SEARCH_PROMPT_TEMPLATE
                              (format_search_results (raw_results r)) question) \<in> set t
               \<and> chain_invoke env (WEB_SEARCH_PROMPT_TEMPLATE
                                    (format_search_results (raw_results r)) question)
                   = Inr (web_answer r))
        \<and> (organic (raw_results r) = [] \<longrightarrow> web_sources r = [])"
    by (intro allI impI) (rule search_web_used, assumption)
  show "\<forall>r t. query_hybrid env question auto_route = (Inr (Hybrid r), t) \<longrightarrow>
        (\<exists>web_context.
           LLMInvoke (HYBRID_PROMPT_TEMPLATE (hyb_rag_context r) web_context question) \<in> set t
         \<and> chain_invoke env (HYBRID_PROMPT_TEMPLATE (hyb_rag_context r) web_context question)
             = Inr (hyb_answer r)
         \<and> (\<forall>name. DocumentEntry name \<in> set (hyb_sources r) \<longrightarrow>
              0 < get_document_count env
              \<and> (\<exists>rr tr ds i.
                    query_rag env question TOP_K_RESULTS = (Inr rr, tr)
                  \<and> name \<in> set (rag_sources rr)
                  \<and> hyb_rag_context r = rag_context rr
                  \<and> vector_similarity_search env question TOP_K_RESULTS = Inr ds
                  \<and> i < length ds \<and> doc_source (ds ! i) = name
                  \<and> sublist (context_part (i + 1, ds ! i)) (hyb_rag_context r)
                  \<and> sublist (page_content (ds ! i)) (hyb_rag_context r)))
         \<and> (\<forall>ti url. WebEntry ti url \<in> set (hyb_sources r) \<longrightarrow>
              (\<exists>wr tw i.
                    search_web env question = (Inr wr, tw)
                  \<and> web_context = web_answer wr
                  \<and> hyb_web_results r = raw_results wr
                  \<and> i < length (organic (raw_results wr))
                  \<and> ti = dict_get (title (organic (raw_results wr) ! i)) ''Unknown''
                  \<and> url = dict_get (link (organic (raw_results wr) ! i)) []
                  \<and> sublist (result_part (i + 1, organic (raw_results wr) ! i))
                       (format_search_results (raw_results wr))
                  \<and> LLMInvoke (WEB_SEARCH_PROMPT_TEMPLATE
                                 (format_search_results (raw_results wr)) question) \<in> set t
                  \<and> chain_invoke env (WEB_SEARCH_PROMPT_TEMPLATE
                                       (format_search_results (raw_results wr)) question)
                      = Inr (web_answer wr)))
         \<and> (\<not> 0 < get_document_count env
              \<or> (\<exists>e tr. query_rag env question TOP_K_RESULTS = (Inl e, tr))
              \<longrightarrow> (\<forall>name. DocumentEntry name \<notin> set (hyb_sources r)))
         \<and> ((\<exists>e tw. search_web env question = (Inl e, tw))
              \<longrightarrow> (\<forall>ti url. WebEntry ti url \<notin> set (hyb_sources r))))"
    by (intro allI impI) (rule query_hybrid_used[OF ok], assumption)
  show "\<forall>r t. query_hybrid env question auto_route = (Inr (Documents r), t) \<longrightarrow>
        (\<exists>rr tr. query_rag env question TOP_K_RESULTS = (Inr rr, tr)
             \<and> r = rr\<lparr>rag_mode := Some ''documents''\<rparr>)"
    using query_hybrid_delegated_eq[of env question auto_route] by (rule conjunct1)
  show "\<forall>r t. query_hybrid env question auto_route = (Inr (Web r), t) \<longrightarrow>
        (\<exists>wr tw. search_web env question = (Inr wr, tw)
             \<and> r = wr\<lparr>web_mode := Some ''web''\<rparr>)"
    using query_hybrid_delegated_eq[of env question auto_route] by (rule conjunct2)
qed

theorem provenance_only_from_used_evidence_witness:
  "set_listing_ok example_env
   \<and> fst (query_hybrid example_env ''What changed in the report?'' True)
       = Inr (Hybrid example_hybrid_result)
   \<and> DocumentEntry ''a.pdf'' \<in> set (hyb_sources example_hybrid_result)
   \<and> WebEntry ''One'' ''http://one'' \<in> set (hyb_sources example_hybrid_result)
   \<and> (\<exists>web_context.
         LLMInvoke (HYBRID_PROMPT_TEMPLATE (hyb_rag_context example_hybrid_result) web_context
                      ''What changed in the report?'')
           \<in> set (snd (query_hybrid example_env ''What changed in the report?'' True))
       \<and> chain_invoke example_env
           (HYBRID_PROMPT_TEMPLATE (hyb_rag_context example_hybrid_result) web_context
              ''What changed in the report?'') = Inr (hyb_answer example_hybrid_result)
       \<and> (\<exists>rr tr ds i.
             query_rag example_env ''What changed in the report?'' TOP_K_RESULTS = (Inr rr, tr)
           \<and> ''a.pdf'' \<in> set (rag_sources rr)
           \<and> vector_similarity_search example_env ''What changed in the report?''
                TOP_K_RESULTS = Inr ds
           \<and> i < length ds \<and> doc_source (ds ! i) = ''a.pdf''
           \<and> sublist (page_content (ds ! i)) (hyb_rag_context example_hybrid_result))
       \<and> (\<exists>wr tw i.
             search_web example_env ''What changed in the report?'' = (Inr wr, tw)
           \<and> web_context = web_answer wr
           \<and> i < length (organic (raw_results wr))
           \<and> ''One'' = dict_get (title (organic (raw_results wr) ! i)) ''Unknown''
           \<and> sublist (result_part (i + 1, organic (raw_results wr) ! i))
                (format_search_results (raw_results wr))
           \<and> chain_invoke example_env
                (WEB_SEARCH_PROMPT_TEMPLATE (format_search_results (raw_results wr))
                   ''What changed in the report?'') = Inr (web_answer wr)))
   \<and> set_listing_ok retrieval_error_env
   \<and> fst (query_hybrid retrieval_error_env ''What changed in the report?'' True)
       = Inr (Hybrid retrieval_error_result)
   \<and> fst (query_rag retrieval_error_env ''What changed in the report?'' TOP_K_RESULTS)
       = Inl (Exception ''index unavailable'')
   \<and> (\<forall>name. DocumentEntry name \<notin> set (hyb_sources retrieval_error_result))"
proof -
  let ?q = "''What changed in the report?''"
  have ok: "set_listing_ok example_env"
    by (simp add: set_listing_ok_def example_env_def)
  have ok': "set_listing_ok retrieval_error_env"
    by (simp add: set_listing_ok_def retrieval_error_env_def example_env_def)
  have e: "fst (query_hybrid example_env ?q True) = Inr (Hybrid example_hybrid_result)"
    by code_simp
  then have res: "query_hybrid example_env ?q True
             = (Inr (Hybrid example_hybrid_result), snd (query_hybrid example_env ?q True))"
    by (metis prod.collapse)
  have e': "fst (query_hybrid retrieval_error_env ?q True) = Inr (Hybrid retrieval_error_result)"
    by code_simp
  then have res': "query_hybrid retrieval_error_env ?q True
             = (Inr (Hybrid retrieval_error_result),
                snd (query_hybrid retrieval_error_env ?q True))"
    by (metis prod.collapse)
  have d: "DocumentEntry ''a.pdf'' \<in> set (hyb_sources example_hybrid_result)" by code_simp
  have w: "WebEntry ''One'' ''http://one'' \<in> set (hyb_sources example_hybrid_result)"
    by code_simp
  have x: "fst (query_rag retrieval_error_env ?q TOP_K_RESULTS)
             = Inl (Exception ''index unavailable'')"
    by code_simp
  then have x': "\<exists>e tr. query_rag retrieval_error_env ?q TOP_K_RESULTS = (Inl e, tr)"
    by (metis prod.collapse)
  note T = provenance_only_from_used_evidence[OF ok, of ?q TOP_K_RESULTS True]
  note T' = provenance_only_from_used_evidence[OF ok', of ?q TOP_K_RESULTS True]
  note H = T[THEN conjunct2, THEN conjunct2, THEN conjunct1, rule_format, OF res]
  note H' = T'[THEN conjunct2, THEN conjunct2, THEN conjunct1, rule_format, OF res']
  from H obtain wc
    where 1: "LLMInvoke (HYBRID_PROMPT_TEMPLATE (hyb_rag_context example_hybrid_result) wc ?q)
                \<in> set (snd (query_hybrid example_env ?q True))"
      and 2: "chain_invoke example_env
                (HYBRID_PROMPT_TEMPLATE (hyb_rag_context example_hybrid_result) wc ?q)
              = Inr (hyb_answer example_hybrid_result)"
      and 3: "\<forall>name. DocumentEntry name \<in> set (hyb_sources example_hybrid_result) \<longrightarrow>
              0 < get_document_count example_env
              \<and> (\<exists>rr tr ds i.
                    query_rag example_env ?q TOP_K_RESULTS = (Inr rr, tr)
                  \<and> name \<in> set (rag_sources rr)
                  \<and> hyb_rag_context example_hybrid_result = rag_context rr
                  \<and> vector_similarity_search example_env ?q TOP_K_RESULTS = Inr ds
                  \<and> i < length ds \<and> doc_source (ds ! i) = name
                  \<and> sublist (context_part (i + 1, ds ! i))
                       (hyb_rag_context example_hybrid_result)
                  \<and> sublist (page_content (ds ! i)) (hyb_rag_context example_hybrid_result))"
      and 4: "\<forall>ti url. WebEntry ti url \<in> set (hyb_sources example_hybrid_result) \<longrightarrow>
              (\<exists>wr tw i.
                    search_web example_env ?q = (Inr wr, tw)
                  \<and> wc = web_answer wr
                  \<and> hyb_web_results example_hybrid_result = raw_results wr
                  \<and> i < length (organic (raw_results wr))
                  \<and> ti = dict_get (title (organic (raw_results wr) ! i)) ''Unknown''
                  \<and> url = dict_get (link (organic (raw_results wr) ! i)) []
                  \<and> sublist (result_part (i + 1, organic (raw_results wr) ! i))
                       (format_search_results (raw_results wr))
                  \<and> LLMInvoke (WEB_SEARCH_PROMPT_TEMPLATE
                                 (format_search_results (raw_results wr)) ?q)
                      \<in> set (snd (query_hybrid example_env ?q True))
                  \<and> chain_invoke example_env (WEB_SEARCH_PROMPT_TEMPLATE
                                       (format_search_results (raw_results wr)) ?q)
                      = Inr (web_answer wr))"
    by blast
  from 3[rule_format, OF d] obtain rr tr ds i
    where 5: "query_rag example_env ?q TOP_K_RESULTS = (Inr rr, tr)"
      "''a.pdf'' \<in> set (rag_sources rr)"
      "vector_similarity_search example_env ?q TOP_K_RESULTS = Inr ds"
      "i < length ds" "doc_source (ds ! i) = ''a.pdf''"
      "sublist (page_content (ds ! i)) (hyb_rag_context example_hybrid_result)"
    by blast
  from 4[rule_format, OF w] obtain wr tw j
    where 6: "search_web example_env ?q = (Inr wr, tw)"
      "wc = web_answer wr"
      "j < length (organic (raw_results wr))"
      "''One'' = dict_get (title (organic (raw_results wr) ! j)) ''Unknown''"
      "sublist (result_part (j + 1, organic (raw_results wr) ! j))
         (format_search_results (raw_results wr))"
      "chain_invoke example_env
         (WEB_SEARCH_PROMPT_TEMPLATE (format_search_results (raw_results wr)) ?q)
       = Inr (web_answer wr)"
    by blast
  from H' x'
  have 7: "\<forall>name. DocumentEntry name \<notin> set (hyb_sources retrieval_error_result)"
    by blast
  have 8: "\<exists>web_context.
         LLMInvoke (HYBRID_PROMPT_TEMPLATE (hyb_rag_context example_hybrid_result) web_context ?q)
           \<in> set (snd (query_hybrid example_env ?q True))
       \<and> chain_invoke example_env
           (HYBRID_PROMPT_TEMPLATE (hyb_rag_context example_hybrid_result) web_context ?q)
          = Inr (hyb_answer example_hybrid_result)
       \<and> (\<exists>rr tr ds i.
             query_rag example_env ?q TOP_K_RESULTS = (Inr rr, tr)
           \<and> ''a.pdf'' \<in> set (rag_sources rr)
           \<and> vector_similarity_search example_env ?q TOP_K_RESULTS = Inr ds
           \<and> i < length ds \<and> doc_source (ds ! i) = ''a.pdf''
           \<and> sublist (page_content (ds ! i)) (hyb_rag_context example_hybrid_result))
       \<and> (\<exists>wr tw i.
             search_web example_env ?q = (Inr wr, tw)
           \<and> web_context = web_answer wr
           \<and> i < length (organic (raw_results wr))
           \<and> ''One'' = dict_get (title (organic (raw_results wr) ! i)) ''Unknown''
           \<and> sublist (result_part (i + 1, organic (raw_results wr) ! i))
                (format_search_results (raw_results wr))
           \<and> chain_invoke example_env
                (WEB_SEARCH_PROMPT_TEMPLATE (format_search_results (raw_results wr)) ?q)
              = Inr (web_answer wr))"
    using 1 2 5 6 by blast
  from ok e d w 8 ok' e' x 7 show ?thesis by (intro conjI)
qed

lemma get_rag_results_no_documents:
  "\<not> 0 < doc_count \<Longrightarrow> get_rag_results env question doc_count = (rag_result_default, [])"
  by (simp add: get_rag_results_def)

lemma hybrid_fusion_no_documents_context:
  assumes "\<not> 0 < doc_count"
    and "hybrid_fusion env question doc_count = (Inr (Hybrid r), t)"
  shows "hyb_rag_context r = []"
  using hybrid_fusion_Hybrid[OF assms(2)] get_rag_results_no_documents[OF assms(1)]
  by (auto simp: rag_result_default_def)

text \<open>
  Claim C6. With nothing indexed, the fusion does not call the similarity search, but
  the document context it passes to the fusion prompt is the empty string of the
  initial dictionary, not the placeholder \<open>No document context available.\<close>: the
  \<open>"context"\<close> key is always present, so the default of \<open>.get\<close> is never taken.
\<close>

theorem query_hybrid_empty_index_context:
  "query_hybrid empty_index_env ''What changed in the report?'' False =
     (Inr (Hybrid \<lparr>hyb_answer = ''fused answer'',
                   hyb_sources = [WebEntry ''One'' ''http://one'', WebEntry ''Two'' ''http://two'',
                                  WebEntry ''Unknown'' []],
                   hyb_mode = ''hybrid'',
                   hyb_rag_context = [],
                   hyb_web_results = example_search\<rparr>),
      [SerperRequest ''What changed in the report?'' 5, GetLLM,
       LLMInvoke (WEB_SEARCH_PROMPT_TEMPLATE
         ''[Knowledge Graph]\<newline>Title: Graph\<newline>Description: \<newline>\<newline>[Featured Answer]\<newline>featured\<newline>\<newline>[Result 1]\<newline>Title: One\<newline>Snippet: first\<newline>URL: http://one\<newline>\<newline>[Result 2]\<newline>Title: Two\<newline>Snippet: No description\<newline>URL: http://two\<newline>\<newline>[Result 3]\<newline>Title: No title\<newline>Snippet: third\<newline>URL: \<newline>''
         ''What changed in the report?''),
       GetLLM,
       LLMInvoke (HYBRID_PROMPT_TEMPLATE [] ''web answer'' ''What changed in the report?'')])
   \<and> get_document_count empty_index_env = 0
   \<and> [] \<noteq> ''No document context available.''"
  by code_simp

end
